theory Spec2Isabelle
  imports Complex_Main "HOL-Library.Log_Nat"
begin

section \<open>JavaScript values\<close>

text \<open>
  The values \<open>nodeinfo\<close> handles are modelled as trees.  A string is a list of code
  units below 256; an object is the list of its own enumerable data properties in
  enumeration order.  Arrays, functions, accessor properties and the members an object
  inherits from \<open>Object.prototype\<close> are outside the model, so property names such as
  \<open>toString\<close> or \<open>__proto__\<close> are ordinary keys here.  The sign of zero is not
  modelled.
\<close>

datatype jsnum = NaN | PInf | NInf | Fin rat

datatype jsv = Undefined | Null | Bool bool | Num jsnum | Str string
  | Obj "(string \<times> jsv) list"

datatype error = TypeError

type_synonym props = "(string \<times> jsv) list"

text \<open>ToBoolean.\<close>

fun truthy :: "jsv \<Rightarrow> bool" where
  "truthy Undefined = False"
| "truthy Null = False"
| "truthy (Bool b) = b"
| "truthy (Num n) = (n \<noteq> NaN \<and> n \<noteq> Fin 0)"
| "truthy (Str s) = (s \<noteq> [])"
| "truthy (Obj ps) = True"

text \<open>
  Reading a property: \<open>undefined.k\<close> and \<open>null.k\<close> throw a TypeError, a missing
  property reads as \<open>undefined\<close>.  None of the names the program reads is a property
  of a primitive string, number or boolean.
\<close>

definition or_undefined :: "jsv option \<Rightarrow> jsv" where
  "or_undefined x = (case x of None \<Rightarrow> Undefined | Some v \<Rightarrow> v)"

fun js_prop :: "jsv \<Rightarrow> string \<Rightarrow> jsv" where
  "js_prop (Obj ps) k = or_undefined (map_of ps k)"
| "js_prop v k = Undefined"

definition get :: "jsv \<Rightarrow> string \<Rightarrow> error + jsv" where
  "get v k = (if v = Undefined \<or> v = Null then Inl TypeError else Inr (js_prop v k))"

subsection \<open>Numbers as text\<close>

definition digit_char :: "nat \<Rightarrow> char" where
  "digit_char d = ''0123456789'' ! d"

fun show_nat :: "nat \<Rightarrow> string" where
  "show_nat n = (if n < 10 then [digit_char n] else show_nat (n div 10) @ [digit_char (n mod 10)])"

declare show_nat.simps [simp del]

definition digit_val :: "char \<Rightarrow> nat" where
  "digit_val c = of_char c - 48"

definition is_digit :: "char \<Rightarrow> bool" where
  "is_digit c = (48 \<le> (of_char c :: nat) \<and> (of_char c :: nat) \<le> 57)"

definition dec_val :: "string \<Rightarrow> nat" where
  "dec_val s = foldl (\<lambda>a c. 10 * a + digit_val c) 0 s"

text \<open>
  The external functions the program calls and that are taken as given: the packages
  \<open>prettysize\<close> and \<open>humanize-duration\<close> (the latter with the fixed options of the
  call), \<open>Number.prototype.toFixed\<close>, and the conversion of a number to a string
  where it is not an integer below \<open>10^21\<close> in magnitude.
\<close>

record lib =
  prettysize :: "jsnum \<Rightarrow> string"
  humanizeDuration :: "jsnum \<Rightarrow> string"
  toFixed :: "jsnum \<Rightarrow> nat \<Rightarrow> string"
  numberToString :: "rat \<Rightarrow> string"

fun number_to_string :: "lib \<Rightarrow> jsnum \<Rightarrow> string" where
  "number_to_string L NaN = ''NaN''"
| "number_to_string L PInf = ''Infinity''"
| "number_to_string L NInf = ''-Infinity''"
| "number_to_string L (Fin r) =
     (if of_int \<lfloor>r\<rfloor> = r \<and> \<bar>r\<bar> < 10 ^ 21
      then (if r < 0 then ''-'' @ show_nat (nat (- \<lfloor>r\<rfloor>)) else show_nat (nat \<lfloor>r\<rfloor>))
      else numberToString L r)"

text \<open>ToString.\<close>

fun to_string :: "lib \<Rightarrow> jsv \<Rightarrow> string" where
  "to_string L Undefined = ''undefined''"
| "to_string L Null = ''null''"
| "to_string L (Bool b) = (if b then ''true'' else ''false'')"
| "to_string L (Num n) = number_to_string L n"
| "to_string L (Str s) = s"
| "to_string L (Obj ps) = ''[object Object]''"

text \<open>\<open>Array.prototype.join\<close> on an array of strings.\<close>

fun join :: "string \<Rightarrow> string list \<Rightarrow> string" where
  "join sep [] = []"
| "join sep [x] = x"
| "join sep (x # y # ys) = x @ sep @ join sep (y # ys)"

subsection \<open>Objects\<close>

text \<open>
  An object enumerates its integer-like keys first, in ascending order, and then its
  other keys in the order they were added.  A key is integer-like when it is the
  canonical decimal form of an integer below \<open>2^32 - 1\<close>.
\<close>

definition array_index :: "string \<Rightarrow> nat option" where
  "array_index k =
     (if list_all is_digit k \<and> show_nat (dec_val k) = k \<and> dec_val k < 4294967295
      then Some (dec_val k) else None)"

fun replace_prop :: "string \<Rightarrow> 'v \<Rightarrow> (string \<times> 'v) list \<Rightarrow> (string \<times> 'v) list" where
  "replace_prop k v [] = []"
| "replace_prop k v (p # ps) = (if fst p = k then (k, v) # ps else p # replace_prop k v ps)"

fun insert_index :: "nat \<Rightarrow> string \<Rightarrow> 'v \<Rightarrow> (string \<times> 'v) list \<Rightarrow> (string \<times> 'v) list" where
  "insert_index n k v [] = [(k, v)]"
| "insert_index n k v (p # ps) =
     (case array_index (fst p) of
        Some m \<Rightarrow> if m < n then p # insert_index n k v ps else (k, v) # p # ps
      | None \<Rightarrow> (k, v) # p # ps)"

text \<open>The assignment \<open>o[k] = v\<close>.\<close>

definition obj_set :: "(string \<times> 'v) list \<Rightarrow> string \<Rightarrow> 'v \<Rightarrow> (string \<times> 'v) list" where
  "obj_set ps k v =
     (if k \<in> set (map fst ps) then replace_prop k v ps
      else case array_index k of
             None \<Rightarrow> ps @ [(k, v)]
           | Some n \<Rightarrow> insert_index n k v ps)"

text \<open>\<open>delete o[k]\<close>.\<close>

definition obj_delete :: "(string \<times> 'v) list \<Rightarrow> string \<Rightarrow> (string \<times> 'v) list" where
  "obj_delete ps k = filter (\<lambda>p. fst p \<noteq> k) ps"

section \<open>Host facts\<close>

record cpu =
  model :: string
  speed :: nat

subsection \<open>The CPU summary\<close>

text \<open>
  \<open>cpus.model[m] = (cpus.model[m] || 0) + 1\<close>: the counters are whole numbers, kept as
  naturals here (they stay far below \<open>2^53\<close>).
\<close>

definition or_zero :: "nat option \<Rightarrow> nat" where
  "or_zero x = (case x of None \<Rightarrow> 0 | Some n \<Rightarrow> if n = 0 then 0 else n)"

definition bump :: "(string \<times> nat) list \<Rightarrow> string \<Rightarrow> (string \<times> nat) list" where
  "bump counts k = obj_set counts k (or_zero (map_of counts k) + 1)"

fun cpu_counts :: "cpu list \<Rightarrow> (string \<times> nat) list \<times> (string \<times> nat) list
    \<Rightarrow> (string \<times> nat) list \<times> (string \<times> nat) list" where
  "cpu_counts [] acc = acc"
| "cpu_counts (c # cs) acc =
     cpu_counts cs (bump (fst acc) (model c), bump (snd acc) (show_nat (speed c)))"

definition times_sign :: string where
  "times_sign = [CHR 0x20, CHR 0xD7, CHR 0x20]"

text \<open>\<open>for (const p in counts) out.push(counts[p]+' \<times> '+p)\<close>\<close>

definition cpu_entries :: "(string \<times> nat) list \<Rightarrow> string list" where
  "cpu_entries counts =
     map (\<lambda>p. show_nat (or_zero (map_of counts p)) @ times_sign @ p) (map fst counts)"

definition cpus_model :: "cpu list \<Rightarrow> string" where
  "cpus_model cs = join '', '' (cpu_entries (fst (cpu_counts cs ([], []))))"

definition cpus_speed :: "cpu list \<Rightarrow> string" where
  "cpus_speed cs = join '', '' (cpu_entries (snd (cpu_counts cs ([], [])))) @ '' MHz''"


subsection \<open>Numbers\<close>

text \<open>
  A finite number is the rational it denotes.  \<open>to_double\<close> rounds a rational to the
  nearest binary64 value, ties to even, with gradual underflow below \<open>2^-1022\<close> and
  overflow to infinity from \<open>2^1024\<close>.
\<close>

definition pow2 :: "int \<Rightarrow> rat" where
  "pow2 e = 2 powi e"

text \<open>\<open>ilog2 x\<close> is the exponent \<open>e\<close> with \<open>2^e \<le> x < 2^(e+1)\<close>, for a positive \<open>x\<close>.\<close>

definition ilog2 :: "rat \<Rightarrow> int" where
  "ilog2 x =
     (if 1 \<le> x then int (floorlog 2 (nat \<lfloor>x\<rfloor>)) - 1
      else - int (floorlog 2 (nat (\<lceil>1 / x\<rceil> - 1))))"

definition round_half_even :: "rat \<Rightarrow> int" where
  "round_half_even x =
     (let f = \<lfloor>x\<rfloor>; d = x - of_int f
      in if d < 1 / 2 then f else if 1 / 2 < d then f + 1 else if even f then f else f + 1)"

definition to_double :: "rat \<Rightarrow> jsnum" where
  "to_double x =
     (if x = 0 then Fin 0
      else let u = pow2 (max (ilog2 \<bar>x\<bar>) (- 1022) - 52);
               m = of_int (round_half_even (\<bar>x\<bar> / u)) * u
           in if pow2 1024 \<le> m then (if x < 0 then NInf else PInf)
              else Fin (if x < 0 then - m else m))"

fun fin_val :: "jsnum \<Rightarrow> rat" where
  "fin_val (Fin r) = r"
| "fin_val n = 0"

fun negative :: "jsnum \<Rightarrow> bool" where
  "negative NInf = True"
| "negative (Fin r) = (r < 0)"
| "negative n = False"

definition is_inf :: "jsnum \<Rightarrow> bool" where
  "is_inf n = (n = PInf \<or> n = NInf)"

definition signed_inf :: "bool \<Rightarrow> jsnum" where
  "signed_inf neg = (if neg then NInf else PInf)"

text \<open>The operators \<open>*\<close> and \<open>/\<close> on numbers.\<close>

definition js_mul :: "jsnum \<Rightarrow> jsnum \<Rightarrow> jsnum" where
  "js_mul a b =
     (if a = NaN \<or> b = NaN then NaN
      else if is_inf a \<or> is_inf b
        then (if a = Fin 0 \<or> b = Fin 0 then NaN else signed_inf (negative a \<noteq> negative b))
      else to_double (fin_val a * fin_val b))"

definition js_div :: "jsnum \<Rightarrow> jsnum \<Rightarrow> jsnum" where
  "js_div a b =
     (if a = NaN \<or> b = NaN then NaN
      else if is_inf a then (if is_inf b then NaN else signed_inf (negative a \<noteq> negative b))
      else if is_inf b then Fin 0
      else if b = Fin 0 then (if a = Fin 0 then NaN else signed_inf (negative a))
      else to_double (fin_val a / fin_val b))"

text \<open>\<open>Math.round\<close>: the nearest integer, a tie going up.\<close>

fun math_round :: "jsnum \<Rightarrow> jsnum" where
  "math_round (Fin r) = Fin (of_int \<lfloor>r + 1 / 2\<rfloor>)"
| "math_round n = n"

text \<open>A byte count the runtime hands over as a number.\<close>

definition double_of_nat :: "nat \<Rightarrow> jsnum" where
  "double_of_nat n = to_double (of_nat n)"


subsection \<open>The host\<close>

text \<open>
  What one call reads from the operating system and the runtime: the results of the
  \<open>os\<close> functions, of \<open>process.memoryUsage()\<close>, the time zone
  \<open>Intl.DateTimeFormat('en').resolvedOptions().timeZone\<close>, the part of \<open>Date()\<close>
  from the zone abbreviation on (the language fixes the format of that string, so the
  match never fails), and the \<open>package.json\<close> two directories up, if there is one.
  One call sees one snapshot of them.
\<close>

record memory_usage =
  rss :: nat
  heapTotal :: nat
  heapUsed :: nat

record host =
  os_cpus :: "cpu list"
  os_freemem :: nat
  os_hostname :: string
  os_loadavg :: "jsnum list"
  os_platform :: string
  os_release :: string
  os_totalmem :: nat
  os_type :: string
  os_uptime :: jsnum
  memoryUsage :: memory_usage
  intlTimezone :: string
  dateTzOffset :: string
  packageJson :: "props option"

text \<open>\<open>Math.round(context.os.freemem/context.os.totalmem*100)\<close>\<close>

definition freemempercent :: "host \<Rightarrow> jsnum" where
  "freemempercent H =
     math_round (js_mul (js_div (double_of_nat (os_freemem H)) (double_of_nat (os_totalmem H))) (Fin 100))"

definition context_os :: "lib \<Rightarrow> host \<Rightarrow> jsv" where
  "context_os L H = Obj
     [(''cpus'', Obj [(''model'', Str (cpus_model (os_cpus H))),
                      (''speed'', Str (cpus_speed (os_cpus H)))]),
      (''freemem'', Str (prettysize L (double_of_nat (os_freemem H)))),
      (''hostname'', Str (os_hostname H)),
      (''loadavg'', Str (join '' '' (map (\<lambda>l. toFixed L l 2) (os_loadavg H)))),
      (''platform'', Str (os_platform H)),
      (''release'', Str (os_release H)),
      (''totalmem'', Str (prettysize L (double_of_nat (os_totalmem H)))),
      (''type'', Str (os_type H)),
      (''uptime'', Str (humanizeDuration L (js_mul (os_uptime H) (Fin 1000)))),
      (''freemempercent'', Num (freemempercent H))]"

text \<open>\<open>Object.keys\<close> of a value that is not \<open>undefined\<close> or \<open>null\<close>.\<close>

fun object_keys :: "jsv \<Rightarrow> string list" where
  "object_keys (Obj ps) = map fst ps"
| "object_keys (Str s) = map show_nat [0..<length s]"
| "object_keys v = []"

definition context_package :: "props option \<Rightarrow> jsv" where
  "context_package pj =
     (case pj of
        None \<Rightarrow> Null
      | Some ps \<Rightarrow>
          if truthy (js_prop (Obj ps) ''dependencies'')
          then Obj (obj_set ps ''dependencies''
                 (Str (join '', '' (object_keys (js_prop (Obj ps) ''dependencies'')))))
          else Obj ps)"

text \<open>
  \<open>context.process = process\<close> and the three assignments to it: the global
  \<open>process\<close> object itself is changed.
\<close>

definition context_process :: "lib \<Rightarrow> host \<Rightarrow> props \<Rightarrow> props" where
  "context_process L H P =
     obj_set (obj_set (obj_set P
       ''rss'' (Str (prettysize L (double_of_nat (rss (memoryUsage H))))))
       ''heapTotal'' (Str (prettysize L (double_of_nat (heapTotal (memoryUsage H))))))
       ''heapUsed'' (Str (prettysize L (double_of_nat (heapUsed (memoryUsage H)))))"

text \<open>\<open>Object.assign({ style: '' }, options).style\<close>\<close>

definition opt_style :: "jsv \<Rightarrow> jsv" where
  "opt_style options =
     (case options of
        Obj ps \<Rightarrow> (case map_of ps ''style'' of None \<Rightarrow> Str [] | Some v \<Rightarrow> v)
      | _ \<Rightarrow> Str [])"

section \<open>Cookies\<close>

text \<open>
  Modelled from the spec: \<open>cookie.parse\<close>, of the package \<open>cookie\<close>, which the
  repository only imports.  The header is split at semicolons; a piece with no \<open>=\<close> is
  skipped; name and value are the trimmed text before and after the first \<open>=\<close>; a
  value in double quotes loses them; the value is URL-decoded, and left as it is when it
  does not decode; the first value of a name wins.  An argument that is not a string is
  a TypeError.
\<close>

fun split_on :: "char \<Rightarrow> string \<Rightarrow> string list" where
  "split_on d [] = [[]]"
| "split_on d (c # cs) =
     (if c = d then [] # split_on d cs
      else (case split_on d cs of [] \<Rightarrow> [[c]] | w # ws \<Rightarrow> (c # w) # ws))"

definition is_space :: "char \<Rightarrow> bool" where
  "is_space c = (c = CHR '' '' \<or> c = CHR 0x09 \<or> c = CHR 0x0A \<or> c = CHR 0x0D)"

definition trim :: "string \<Rightarrow> string" where
  "trim s = rev (dropWhile is_space (rev (dropWhile is_space s)))"

definition hex_val :: "char \<Rightarrow> nat option" where
  "hex_val c =
     (let n = (of_char c :: nat)
      in if 48 \<le> n \<and> n \<le> 57 then Some (n - 48)
         else if 65 \<le> n \<and> n \<le> 70 then Some (n - 55)
         else if 97 \<le> n \<and> n \<le> 102 then Some (n - 87)
         else None)"

fun percent_decode :: "string \<Rightarrow> string option" where
  "percent_decode [] = Some []"
| "percent_decode (c # cs) =
     (if c = CHR ''%'' then
        (case cs of
           h # l # rest \<Rightarrow>
             (case (hex_val h, hex_val l, percent_decode rest) of
                (Some a, Some b, Some t) \<Rightarrow> Some (char_of (16 * a + b) # t)
              | _ \<Rightarrow> None)
         | _ \<Rightarrow> None)
      else map_option ((#) c) (percent_decode cs))"

definition url_decode :: "string \<Rightarrow> string" where
  "url_decode s = (case percent_decode s of None \<Rightarrow> s | Some t \<Rightarrow> t)"

definition unquote :: "string \<Rightarrow> string" where
  "unquote s = (case s of [] \<Rightarrow> [] | c # cs \<Rightarrow> if c = CHR 0x22 then butlast cs else s)"

fun cookie_pairs :: "string list \<Rightarrow> props \<Rightarrow> props" where
  "cookie_pairs [] obj = obj"
| "cookie_pairs (pair # pairs) obj =
     (if CHR ''='' \<in> set pair
      then let key = trim (takeWhile (\<lambda>c. c \<noteq> CHR ''='') pair);
               val = unquote (trim (tl (dropWhile (\<lambda>c. c \<noteq> CHR ''='') pair)))
           in cookie_pairs pairs
                (if key \<in> set (map fst obj) then obj else obj_set obj key (Str (url_decode val)))
      else cookie_pairs pairs obj)"

text \<open>
  Modelled from the spec: \<open>cookie.parse(str)\<close>, which is not part of the repository.
\<close>

definition cookie_parse :: "jsv \<Rightarrow> error + jsv" where
  "cookie_parse v =
     (case v of
        Str s \<Rightarrow> Inr (Obj (cookie_pairs (split_on (CHR '';'') s) []))
      | _ \<Rightarrow> Inl TypeError)"


section \<open>Handlebars\<close>

text \<open>
  Modelled from the spec: the Handlebars engine, which the repository only imports.
  What the template uses of it: text, \<open>{{path}}\<close> (HTML-escaped), \<open>{{{path}}}\<close>
  (inserted as it is), \<open>{{#if path}} \<dots> {{else}} \<dots> {{/if}}\<close> (the first branch
  for a truthy value) and \<open>{{#each path}} \<dots> {{/each}}\<close> (one copy of the body for
  each property of an object, in its order, with \<open>this\<close> the value and \<open>@key\<close> the
  name).  A step of a path through \<open>undefined\<close> or \<open>null\<close> yields that value.
\<close>

datatype path = This | Key | Path "string list"

datatype hbs = Text string | Esc path | Raw path
  | If path "hbs list" "hbs list"
  | Each path "hbs list"

fun lookup_path :: "jsv \<Rightarrow> string list \<Rightarrow> jsv" where
  "lookup_path v [] = v"
| "lookup_path v (k # ks) =
     (if v = Undefined \<or> v = Null then v else lookup_path (js_prop v k) ks)"

fun resolve :: "jsv \<Rightarrow> jsv \<Rightarrow> path \<Rightarrow> jsv" where
  "resolve cur key This = cur"
| "resolve cur key Key = key"
| "resolve cur key (Path ks) = lookup_path cur ks"

definition escapeChar :: "char \<Rightarrow> string" where
  "escapeChar c =
     (if c = CHR ''&'' then ''&amp;''
      else if c = CHR ''<'' then ''&lt;''
      else if c = CHR ''>'' then ''&gt;''
      else if c = CHR 0x22 then ''&quot;''
      else if c = CHR 0x27 then ''&#x27;''
      else if c = CHR 0x60 then ''&#x60;''
      else if c = CHR ''='' then ''&#x3D;''
      else [c])"

definition escape_html :: "string \<Rightarrow> string" where
  "escape_html s = concat (map escapeChar s)"

text \<open>
  Modelled from the spec: \<open>Handlebars.escapeExpression\<close>, the escaping every
  \<open>{{path}}\<close> goes through.  It yields nothing for \<open>undefined\<close> and \<open>null\<close>, the
  plain string conversion for the other falsy values that are not strings, and the
  escaped string conversion otherwise.
\<close>

fun escapeExpression :: "lib \<Rightarrow> jsv \<Rightarrow> string" where
  "escapeExpression L Undefined = []"
| "escapeExpression L Null = []"
| "escapeExpression L (Str s) = escape_html s"
| "escapeExpression L v = (if truthy v then escape_html (to_string L v) else to_string L v)"

fun raw_string :: "lib \<Rightarrow> jsv \<Rightarrow> string" where
  "raw_string L Undefined = []"
| "raw_string L Null = []"
| "raw_string L v = to_string L v"

text \<open>
  Modelled from the spec: the output of a template node for the current context
  \<open>cur\<close> and the current \<open>@key\<close>.
\<close>

fun render :: "lib \<Rightarrow> jsv \<Rightarrow> jsv \<Rightarrow> hbs \<Rightarrow> string" where
  "render L cur key (Text s) = s"
| "render L cur key (Esc p) = escapeExpression L (resolve cur key p)"
| "render L cur key (Raw p) = raw_string L (resolve cur key p)"
| "render L cur key (If p yes no) =
     (if truthy (resolve cur key p) then concat (map (render L cur key) yes)
      else concat (map (render L cur key) no))"
| "render L cur key (Each p body) =
     (case resolve cur key p of
        Obj ps \<Rightarrow> concat (map (\<lambda>kv. concat (map (render L (snd kv) (Str (fst kv))) body)) ps)
      | _ \<Rightarrow> [])"

section \<open>The template\<close>

text \<open>
  The template of \<open>nodejs-info.js\<close>.  A block tag alone on its line leaves nothing
  of that line in the output.
\<close>

definition template_style_open :: string where
  \<open>template_style_open = concat
    [''<!doctype html>\<newline>'',
     ''<html>\<newline>'',
     ''<head>\<newline>'',
     ''    <title>NodeInfo</title>\<newline>'',
     ''    <meta charset="utf-8">\<newline>'',
     ''    <meta name="viewport" content="width=device-width, initial-scale=1">\<newline>'',
     ''    <link rel="stylesheet" href="https://unpkg.com/sanitize.css">\<newline>'',
     ''    <style>\<newline>'',
     ''        main { color: #333333; font: 80% Verdana, Arial, Helvetica, sans-serif; line-height: 1.6; margin: 0.4em; }\<newline>'',
     ''        h1 { font-size: 1.6em; }\<newline>'',
     ''        h2 { margin: 1em 0; }\<newline>'',
     ''        h3 { margin: 0.4em 0; }\<newline>'',
     ''        table { background-color: #f4ede2; border: 1px solid #adadad; font-size: 0.8em; width: 100%; }\<newline>'',
     ''        td, th { padding: 0.2em 0.8em; vertical-align: top; border-top: 1px solid #adadad; border-bottom: 1px solid #adadad; }\<newline>'',
     ''        th { font-weight: normal; text-align: left; white-space: nowrap;  }\<newline>'',
     ''        table table { border: none; }\<newline>'',
     ''        table table td, table table th { padding: 0 0.4em 0 0; border: none; font-size: 125%; }\<newline>'',
     ''        '']\<close>

definition template_style_close :: string where
  \<open>template_style_close = concat
    [''\<newline>'',
     ''    </style>\<newline>'',
     ''</head>\<newline>'',
     ''<body>\<newline>'',
     ''<main>\<newline>'',
     ''    <h1>Node.js '']\<close>

definition template_table_open :: string where
  \<open>template_table_open = concat
    [''</h1>\<newline>'',
     ''    <table>\<newline>'']\<close>

text \<open>The pieces of a table row \<open><tr><th>label</th><td>{{path}}</td></tr>\<close>.\<close>

definition th_td :: "string \<Rightarrow> string" where
  \<open>th_td label = ''        <tr><th>'' @ label @ ''</th><td>''\<close>

definition th_td_sep :: string where
  \<open>th_td_sep = ''</th><td>''\<close>

definition td_tr :: string where
  \<open>td_tr = ''</td></tr>\<newline>''\<close>

definition row :: "string \<Rightarrow> string list \<Rightarrow> hbs list" where
  "row label p = [Text (th_td label), Esc (Path p), Text td_tr]"

text \<open>A heading row \<open><tr><th colspan="2"><h2>title</h2></th></tr>\<close>.\<close>

definition heading :: "string \<Rightarrow> string \<Rightarrow> string" where
  \<open>heading h title =
     ''        <tr><th colspan="2"><'' @ h @ ''>'' @ title @ ''</'' @ h @ ''></th></tr>\<newline>''\<close>

definition template_package :: "hbs list" where
  "template_package =
     [Text (heading ''h2'' ''Package'')] @
     row ''name'' [''package'', ''name''] @
     [If (Path [''package'', ''description''])
        (row ''description'' [''package'', ''description'']) []] @
     row ''version'' [''package'', ''version''] @
     [If (Path [''package'', ''dependencies''])
        (row ''dependencies'' [''package'', ''dependencies'']) []]"

definition template_os :: "hbs list" where
  "template_os =
     [Text (heading ''h2'' ''OS'')] @
     row ''hostname'' [''os'', ''hostname''] @
     row ''type'' [''os'', ''type''] @
     row ''platform'' [''os'', ''platform''] @
     row ''release'' [''os'', ''release''] @
     row ''cpu models'' [''os'', ''cpus'', ''model''] @
     row ''cpu speeds'' [''os'', ''cpus'', ''speed''] @
     row ''uptime'' [''os'', ''uptime''] @
     row ''load avg'' [''os'', ''loadavg''] @
     row ''total memory'' [''os'', ''totalmem''] @
     [Text (th_td ''free memory''), Esc (Path [''os'', ''freemem'']), Text '' ('',
      Esc (Path [''os'', ''freemempercent'']), Text (''%)'' @ td_tr)] @
     [Text (heading ''h3'' ''process'')] @
     row ''resident set size'' [''process'', ''rss''] @
     row ''v8 heap total'' [''process'', ''heapTotal''] @
     row ''v8 heap used'' [''process'', ''heapUsed''] @
     [Text (heading ''h3'' ''timezone'')] @
     row ''timezone'' [''intlTimezone''] @
     row ''offset'' [''dateTzOffset'']"

definition template_versions :: "hbs list" where
  \<open>template_versions =
     [Text (''\<newline>'' @ heading ''h2'' ''Node versions''),
      Each (Path [''process'', ''versions''])
        [Text ''        <tr><th>'', Esc Key, Text th_td_sep, Esc This, Text td_tr],
      Text ''\<newline>'']\<close>

definition template_env :: "hbs list" where
  \<open>template_env =
     [If (Path [''process'', ''env'', ''NODE_ENV''])
        ([Text ''        <tr><th colspan="2">&nbsp;</th></tr>\<newline>''] @
         row ''NODE_ENV'' [''process'', ''env'', ''NODE_ENV'']) [],
      Text ''\<newline>'']\<close>

definition header_th :: string where
  \<open>header_th = ''        <tr><th style="white-space:nowrap">''\<close>

definition header_row :: "hbs list" where
  "header_row = [Text header_th, Esc Key, Text th_td_sep, Esc This, Text td_tr]"

definition cookie_th :: string where
  \<open>cookie_th = ''                <tr><th>''\<close>

definition cookie_sep :: string where
  \<open>cookie_sep = ''</th><td>:</td><td style="word-break:break-all">''\<close>

definition cookie_row :: "hbs list" where
  "cookie_row = [Text cookie_th, Esc Key, Text cookie_sep, Esc This, Text td_tr]"

definition cookies_open :: string where
  \<open>cookies_open = concat
    [''        <tr><th>cookies</th><td>\<newline>'',
     ''            <table>\<newline>'']\<close>

definition cookies_close :: string where
  \<open>cookies_close = concat
    [''            </table>\<newline>'',
     ''        </td></tr>\<newline>'']\<close>

definition template_request :: "hbs list" where
  "template_request =
     [Text (heading ''h2'' ''Request'')] @
     row ''method'' [''request'', ''method''] @
     row ''href'' [''request'', ''href''] @
     row ''remote ip'' [''request'', ''ip_addr''] @
     [Text (heading ''h3'' ''headers''),
      If (Path [''request'', ''showOriginalUrl''])
        (row ''original url'' [''request'', ''originalUrl'']) [],
      Each (Path [''request'', ''headers'']) header_row,
      Text cookies_open,
      Each (Path [''request'', ''cookies'']) cookie_row,
      Text cookies_close]"

definition template_norequest :: "hbs list" where
  "template_norequest = [Text (heading ''h2'' ''No request object supplied'')]"

definition template_close :: string where
  \<open>template_close = concat
    [''    </table>\<newline>'',
     ''</main>\<newline>'',
     ''</body>\<newline>'',
     ''</html>\<newline>'']\<close>

definition template_top :: "hbs list" where
  "template_top =
     [Text template_style_open, Raw (Path [''styleOverride'']), Text template_style_close,
      Esc (Path [''process'', ''version'']), Text template_table_open,
      If (Path [''package'']) template_package []] @
     template_os @ template_versions @ template_env"

definition template :: "hbs list" where
  "template =
     template_top @
     [If (Path [''request'']) template_request template_norequest,
      Text template_close]"

text \<open>\<open>handlebars.compile(template)\<close> applied to a context.\<close>

definition templateFn :: "lib \<Rightarrow> jsv \<Rightarrow> string" where
  "templateFn L context = concat (map (render L context Undefined) template)"

section \<open>nodeinfo\<close>

text \<open>
  In strict mode an assignment to a property of a primitive value is a TypeError, and
  \<open>delete\<close> of a property a primitive value does not have does nothing.
\<close>

fun set_prop :: "jsv \<Rightarrow> string \<Rightarrow> jsv \<Rightarrow> error + jsv" where
  "set_prop (Obj ps) k v = Inr (Obj (obj_set ps k v))"
| "set_prop w k v = Inl TypeError"

fun deleted :: "jsv \<Rightarrow> string \<Rightarrow> jsv" where
  "deleted (Obj ps) k = Obj (obj_delete ps k)"
| "deleted w k = w"

definition delete_prop :: "jsv \<Rightarrow> string \<Rightarrow> error + jsv" where
  "delete_prop w k = (if w = Undefined \<or> w = Null then Inl TypeError else Inr (deleted w k))"

text \<open>
  \<open>x == 'https'\<close>: among the values of the model only the string \<open>https\<close> itself
  is loosely equal to it.
\<close>

definition eq_https :: "jsv \<Rightarrow> bool" where
  "eq_https v = (v = Str ''https'')"

text \<open>
  \<open>req.socket.encrypted || req.headers['x-forwarded-proto']=='https' ? 'https' : 'http'\<close>,
  read where \<open>req.headers\<close> is truthy.
\<close>

definition protocol :: "jsv \<Rightarrow> error + string" where
  "protocol req =
     (case get req ''socket'' of Inl e \<Rightarrow> Inl e | Inr sock \<Rightarrow>
      case get sock ''encrypted'' of Inl e \<Rightarrow> Inl e | Inr enc \<Rightarrow>
        Inr (if truthy enc \<or> eq_https (js_prop (js_prop req ''headers'') ''x-forwarded-proto'')
             then ''https'' else ''http''))"

text \<open>
  \<open>req.connection.remoteAddress || req.socket.remoteAddress
     || req.connection.socket.remoteAddress\<close>
\<close>

definition remoteAddr :: "jsv \<Rightarrow> error + jsv" where
  "remoteAddr req =
     (case get req ''connection'' of Inl e \<Rightarrow> Inl e | Inr conn \<Rightarrow>
      case get conn ''remoteAddress'' of Inl e \<Rightarrow> Inl e | Inr a1 \<Rightarrow>
        if truthy a1 then Inr a1 else
      case get req ''socket'' of Inl e \<Rightarrow> Inl e | Inr sock \<Rightarrow>
      case get sock ''remoteAddress'' of Inl e \<Rightarrow> Inl e | Inr a2 \<Rightarrow>
        if truthy a2 then Inr a2 else
      case get conn ''socket'' of Inl e \<Rightarrow> Inl e | Inr csock \<Rightarrow>
        get csock ''remoteAddress'')"

definition ipAddr :: "lib \<Rightarrow> jsv \<Rightarrow> jsv \<Rightarrow> jsv" where
  "ipAddr L req ra =
     (let xff = js_prop (js_prop req ''headers'') ''x-forwarded-for''
      in if truthy xff then Str (to_string L xff @ '' via '' @ to_string L ra) else ra)"

definition href :: "lib \<Rightarrow> jsv \<Rightarrow> string \<Rightarrow> string" where
  "href L req proto =
     proto @ ''://'' @ to_string L (js_prop (js_prop req ''headers'') ''host'')
       @ to_string L (js_prop req ''url'')"

definition cookies :: "jsv \<Rightarrow> error + jsv" where
  "cookies req =
     (let c = js_prop (js_prop req ''headers'') ''cookie''
      in if truthy c then cookie_parse c else Inr (Obj []))"

text \<open>
  The body of \<open>if (req.headers) { \<dots> }\<close>.  \<open>context.request = req\<close> makes the
  context share the caller's request object, so the assignments and the \<open>delete\<close>
  change that object; the function returns it as it is afterwards.
\<close>

definition request_facts :: "lib \<Rightarrow> jsv \<Rightarrow> error + jsv" where
  "request_facts L req =
     (case protocol req of Inl e \<Rightarrow> Inl e | Inr proto \<Rightarrow>
      case set_prop req ''href'' (Str (href L req proto)) of Inl e \<Rightarrow> Inl e | Inr req1 \<Rightarrow>
      case remoteAddr req1 of Inl e \<Rightarrow> Inl e | Inr ra \<Rightarrow>
      case set_prop req1 ''ip_addr'' (ipAddr L req1 ra) of Inl e \<Rightarrow> Inl e | Inr req2 \<Rightarrow>
      case cookies req2 of Inl e \<Rightarrow> Inl e | Inr cs \<Rightarrow>
      case set_prop req2 ''cookies'' cs of Inl e \<Rightarrow> Inl e | Inr req3 \<Rightarrow>
      case delete_prop (js_prop req3 ''headers'') ''cookie'' of Inl e \<Rightarrow> Inl e | Inr h \<Rightarrow>
        set_prop req3 ''headers'' h)"

definition make_context :: "lib \<Rightarrow> host \<Rightarrow> props \<Rightarrow> jsv \<Rightarrow> props" where
  "make_context L H P options =
     [(''styleOverride'', opt_style options),
      (''package'', context_package (packageJson H)),
      (''os'', context_os L H),
      (''process'', Obj (context_process L H P)),
      (''intlTimezone'', Str (intlTimezone H)),
      (''dateTzOffset'', Str (dateTzOffset H))]"

text \<open>
  \<open>nodeinfo(req, options)\<close> run on a host \<open>H\<close> with the global \<open>process\<close> object
  \<open>P\<close>.  It returns the page together with the request object and the \<open>process\<close>
  object as the call leaves them, or the exception it throws.
\<close>

definition nodeinfo :: "lib \<Rightarrow> host \<Rightarrow> props \<Rightarrow> jsv \<Rightarrow> jsv \<Rightarrow> error + string \<times> jsv \<times> props" where
  "nodeinfo L H P req options =
     (case get req ''headers'' of Inl e \<Rightarrow> Inl e | Inr h \<Rightarrow>
        if truthy h
        then (case request_facts L req of Inl e \<Rightarrow> Inl e | Inr req' \<Rightarrow>
                Inr (templateFn L (Obj (make_context L H P options @ [(''request'', req')])),
                     req', context_process L H P))
        else Inr (templateFn L (Obj (make_context L H P options)), req, context_process L H P))"


section \<open>The rendered request section\<close>

text \<open>
  The text the two \<open>{{#each}}\<close> loops of the request section produce for a list of
  properties, and the whole request section for the request object \<open>r\<close> the context
  holds.
\<close>

definition header_rows :: "lib \<Rightarrow> props \<Rightarrow> string" where
  "header_rows L hs =
     concat (map (\<lambda>kv. header_th @ escape_html (fst kv) @ th_td_sep
                          @ escapeExpression L (snd kv) @ td_tr) hs)"

definition cookie_rows :: "lib \<Rightarrow> props \<Rightarrow> string" where
  "cookie_rows L cs =
     concat (map (\<lambda>kv. cookie_th @ escape_html (fst kv) @ cookie_sep
                          @ escapeExpression L (snd kv) @ td_tr) cs)"

fun props_of :: "jsv \<Rightarrow> props" where
  "props_of (Obj ps) = ps"
| "props_of v = []"

definition request_section :: "lib \<Rightarrow> jsv \<Rightarrow> string" where
  "request_section L r =
     heading ''h2'' ''Request'' @
     th_td ''method'' @ escapeExpression L (js_prop r ''method'') @ td_tr @
     th_td ''href'' @ escapeExpression L (js_prop r ''href'') @ td_tr @
     th_td ''remote ip'' @ escapeExpression L (js_prop r ''ip_addr'') @ td_tr @
     heading ''h3'' ''headers'' @
     (if truthy (js_prop r ''showOriginalUrl'')
      then th_td ''original url'' @ escapeExpression L (js_prop r ''originalUrl'') @ td_tr
      else []) @
     header_rows L (props_of (js_prop r ''headers'')) @
     cookies_open @
     cookie_rows L (props_of (js_prop r ''cookies'')) @
     cookies_close"

text \<open>The page up to the request section.\<close>

definition page_top :: "lib \<Rightarrow> host \<Rightarrow> props \<Rightarrow> jsv \<Rightarrow> string" where
  "page_top L H P options =
     concat (map (render L (Obj (make_context L H P options)) Undefined) template_top)"

section \<open>Example inputs\<close>

definition example_lib :: lib where
  "example_lib =
     \<lparr>prettysize = (\<lambda>n. ''1 KB''), humanizeDuration = (\<lambda>n. ''1 day''),
      toFixed = (\<lambda>n d. ''0.00''), numberToString = (\<lambda>r. ''0.5'')\<rparr>"

definition example_host :: host where
  "example_host =
     \<lparr>os_cpus = [\<lparr>model = ''X'', speed = 2400\<rparr>, \<lparr>model = ''Y'', speed = 2400\<rparr>],
      os_freemem = 250, os_hostname = ''host'', os_loadavg = [Fin 1, Fin 2, Fin 3],
      os_platform = ''linux'', os_release = ''6.1'', os_totalmem = 1000,
      os_type = ''Linux'', os_uptime = Fin 3600,
      memoryUsage = \<lparr>rss = 3000, heapTotal = 2000, heapUsed = 1000\<rparr>,
      intlTimezone = ''UTC'', dateTzOffset = ''GMT+0000 (Coordinated Universal Time)'',
      packageJson = None\<rparr>"

definition example_process :: props where
  "example_process =
     [(''version'', Str ''v12.0.0''),
      (''versions'', Obj [(''node'', Str ''12.0.0'')]),
      (''env'', Obj [])]"

definition example_transport :: jsv where
  "example_transport = Obj [(''remoteAddress'', Str ''10.0.0.1'')]"

definition example_request :: "props \<Rightarrow> jsv" where
  "example_request hs =
     Obj [(''method'', Str ''GET''), (''url'', Str ''/info''), (''headers'', Obj hs),
          (''socket'', example_transport), (''connection'', example_transport)]"

section \<open>Properties\<close>

subsection \<open>Objects\<close>

lemma or_undefined_simps [simp]:
  "or_undefined None = Undefined" "or_undefined (Some v) = v"
  by (simp_all add: or_undefined_def)

lemma replace_prop_keys: "map fst (replace_prop k v ps) = map fst ps"
  by (induction ps) auto

lemma in_keys: "k \<in> set (map fst ps) \<longleftrightarrow> map_of ps k \<noteq> None"
  by (simp add: map_of_eq_None_iff)

lemma replace_prop_dom: "fst ` set (replace_prop k v ps) = fst ` set ps"
  using replace_prop_keys [of k v ps] by (metis set_map)

lemma map_of_replace_prop_at:
  "map_of (replace_prop k v ps) x = (if x = k \<and> map_of ps k \<noteq> None then Some v else map_of ps x)"
  by (induction ps) auto

lemma map_of_replace_prop:
  "k \<in> set (map fst ps) \<Longrightarrow> map_of (replace_prop k v ps) = (map_of ps)(k \<mapsto> v)"
  unfolding in_keys by (auto simp: fun_eq_iff map_of_replace_prop_at)

lemma insert_index_set: "set (insert_index n k v ps) = insert (k, v) (set ps)"
  by (induction ps) (auto split: option.splits)


lemma map_of_insert_index:
  "k \<notin> set (map fst ps) \<Longrightarrow> map_of (insert_index n k v ps) = (map_of ps)(k \<mapsto> v)"
  by (induction ps) (auto simp: fun_eq_iff split: option.splits)

lemma map_of_obj_set: "map_of (obj_set ps k v) = (map_of ps)(k \<mapsto> v)"
proof (cases "k \<in> set (map fst ps)")
  case True
  then show ?thesis by (simp add: obj_set_def map_of_replace_prop)
next
  case False
  then have "map_of ps k = None" by (simp add: map_of_eq_None_iff)
  then have "map_of (ps @ [(k, v)]) = (map_of ps)(k \<mapsto> v)"
    by (auto simp: fun_eq_iff map_add_def split: option.splits)
  with False show ?thesis
    by (simp add: obj_set_def map_of_insert_index split: option.splits)
qed

lemma keys_obj_set: "set (map fst (obj_set ps k v)) = insert k (set (map fst ps))"
  by (auto simp: obj_set_def replace_prop_dom insert_index_set split: option.splits)


lemma obj_set_same: "map_of ps k = Some v \<Longrightarrow> obj_set ps k v = ps"
proof -
  have r: "map_of qs k = Some v \<Longrightarrow> replace_prop k v qs = qs" for qs :: "(string \<times> 'a) list"
    by (induction qs) (auto split: if_splits)
  assume a: "map_of ps k = Some v"
  then have "k \<in> set (map fst ps)"
    by (metis map_of_eq_None_iff option.distinct(1) set_map)
  with a r show ?thesis by (simp add: obj_set_def)
qed

subsection \<open>The CPU summary\<close>











subsection \<open>Decimal numerals\<close>







subsection \<open>Collecting the request facts\<close>

lemma js_prop_obj_set:
  "js_prop (Obj (obj_set ps k v)) k' = (if k' = k then v else js_prop (Obj ps) k')"
  by (simp add: map_of_obj_set)

lemma truthy_prop_obj: "truthy (js_prop req k) \<Longrightarrow> \<exists>ps. req = Obj ps"
  by (cases req) auto

lemma protocol_obj_set:
  "k \<noteq> ''socket'' \<Longrightarrow> k \<noteq> ''headers'' \<Longrightarrow> protocol (Obj (obj_set ps k v)) = protocol (Obj ps)"
  by (simp add: protocol_def get_def map_of_obj_set)

lemma remoteAddr_obj_set:
  "k \<noteq> ''socket'' \<Longrightarrow> k \<noteq> ''connection'' \<Longrightarrow>
     remoteAddr (Obj (obj_set ps k v)) = remoteAddr (Obj ps)"
  by (simp add: remoteAddr_def get_def map_of_obj_set)

lemma ipAddr_obj_set:
  "k \<noteq> ''headers'' \<Longrightarrow> ipAddr L (Obj (obj_set ps k v)) ra = ipAddr L (Obj ps) ra"
  by (simp add: ipAddr_def map_of_obj_set)

lemma cookies_obj_set:
  "k \<noteq> ''headers'' \<Longrightarrow> cookies (Obj (obj_set ps k v)) = cookies (Obj ps)"
  by (simp add: cookies_def map_of_obj_set)

lemma href_obj_set:
  "k \<noteq> ''headers'' \<Longrightarrow> k \<noteq> ''url'' \<Longrightarrow> href L (Obj (obj_set ps k v)) proto = href L (Obj ps) proto"
  by (simp add: href_def map_of_obj_set)

text \<open>The headers object after \<open>delete headers.cookie\<close>.\<close>

lemma delete_prop_truthy: "truthy h \<Longrightarrow> delete_prop h k = Inr (deleted h k)"
  by (cases h) (auto simp: delete_prop_def)

lemma request_facts_ok:
  assumes "truthy (js_prop (Obj ps) ''headers'')"
    and "protocol (Obj ps) = Inr proto"
    and "remoteAddr (Obj ps) = Inr ra"
    and "cookies (Obj ps) = Inr cs"
  shows "request_facts L (Obj ps) =
     Inr (Obj (obj_set (obj_set (obj_set (obj_set ps
            ''href'' (Str (href L (Obj ps) proto)))
            ''ip_addr'' (ipAddr L (Obj ps) ra))
            ''cookies'' cs)
            ''headers'' (deleted (js_prop (Obj ps) ''headers'') ''cookie'')))"
proof -
  have h: "truthy (or_undefined (map_of ps ''headers''))"
    using assms(1) by simp
  show ?thesis
    using assms(2-4) h
    by (simp add: request_facts_def remoteAddr_obj_set ipAddr_obj_set cookies_obj_set
        map_of_obj_set delete_prop_truthy)
qed

lemma request_facts_Inr:
  assumes "request_facts L (Obj ps) = Inr r"
  shows "\<exists>proto ra cs. protocol (Obj ps) = Inr proto \<and> remoteAddr (Obj ps) = Inr ra
           \<and> cookies (Obj ps) = Inr cs"
  using assms
  by (auto simp: request_facts_def remoteAddr_obj_set ipAddr_obj_set cookies_obj_set
      split: sum.splits)

lemma nodeinfo_ok:
  assumes "truthy (js_prop (Obj ps) ''headers'')"
    and "protocol (Obj ps) = Inr proto"
    and "remoteAddr (Obj ps) = Inr ra"
    and "cookies (Obj ps) = Inr cs"
    and "r = Obj (obj_set (obj_set (obj_set (obj_set ps
            ''href'' (Str (href L (Obj ps) proto)))
            ''ip_addr'' (ipAddr L (Obj ps) ra))
            ''cookies'' cs)
            ''headers'' (deleted (js_prop (Obj ps) ''headers'') ''cookie''))"
  shows "nodeinfo L H P (Obj ps) options =
     Inr (templateFn L (Obj (make_context L H P options @ [(''request'', r)])), r,
          context_process L H P)"
  using assms(1) request_facts_ok [OF assms(1-4), of L] assms(5)
  by (simp add: nodeinfo_def get_def)

lemma nodeinfo_no_headers:
  assumes "req \<noteq> Undefined" "req \<noteq> Null" "\<not> truthy (js_prop req ''headers'')"
  shows "nodeinfo L H P req options =
     Inr (templateFn L (Obj (make_context L H P options)), req, context_process L H P)"
  using assms by (simp add: nodeinfo_def get_def)

subsection \<open>Rendering\<close>

lemma render_row:
  "concat (map (render L cur key) (row label p)) =
     th_td label @ escapeExpression L (lookup_path cur p) @ td_tr"
  by (simp add: row_def)

lemma escape_key: "escapeExpression L (Str k) = escape_html k"
  by simp

lemma render_header_rows:
  "render L cur key (Each p header_row) = header_rows L (props_of (resolve cur key p))"
  by (cases "resolve cur key p") (simp_all add: header_rows_def header_row_def)

lemma render_cookie_rows:
  "render L cur key (Each p cookie_row) = cookie_rows L (props_of (resolve cur key p))"
  by (cases "resolve cur key p") (simp_all add: cookie_rows_def cookie_row_def)

lemma lookup_request:
  "lookup_path (Obj (make_context L H P options @ [(''request'', Obj rs)])) (''request'' # ks)
     = lookup_path (Obj rs) ks"
  by (simp add: make_context_def)

lemma lookup_no_request:
  "lookup_path (Obj (make_context L H P options)) [''request''] = Undefined"
  by (simp add: make_context_def)

lemma lookup_other:
  "k \<noteq> ''request'' \<Longrightarrow>
   lookup_path (Obj (make_context L H P options @ [(''request'', r)])) (k # ks)
     = lookup_path (Obj (make_context L H P options)) (k # ks)"
  by (simp add: make_context_def)

lemma render_request_section:
  "concat (map (render L (Obj (make_context L H P options @ [(''request'', Obj rs)])) Undefined)
      template_request) = request_section L (Obj rs)"
  by (simp add: template_request_def request_section_def render_row render_header_rows
      render_cookie_rows lookup_request del: lookup_path.simps render.simps(5))
     simp

subsection \<open>The page\<close>

lemma render_top_request:
  "concat (map (render L (Obj (make_context L H P options @ [(''request'', r)])) Undefined)
      template_top) = page_top L H P options"
  by (simp add: page_top_def template_top_def template_package_def template_os_def
      template_versions_def template_env_def row_def lookup_other
      del: lookup_path.simps)

lemma page_with_request:
  "templateFn L (Obj (make_context L H P options @ [(''request'', Obj rs)])) =
     page_top L H P options @ request_section L (Obj rs) @ template_close"
proof -
  have "lookup_path (Obj (make_context L H P options @ [(''request'', Obj rs)])) [''request'']
      = Obj rs"
    by (simp add: make_context_def)
  then show ?thesis
    by (simp add: templateFn_def template_def render_top_request render_request_section
        del: lookup_path.simps)
qed

lemma page_without_request:
  "templateFn L (Obj (make_context L H P options)) =
     page_top L H P options @ heading ''h2'' ''No request object supplied'' @ template_close"
  using lookup_no_request [of L H P options]
  by (simp add: templateFn_def template_def page_top_def template_norequest_def
      del: lookup_path.simps)



lemma nodeinfo_Inr:
  assumes "nodeinfo L H P req options = Inr (html, req', P')"
  shows "P' = context_process L H P"
    and "\<not> truthy (js_prop req ''headers'') \<Longrightarrow>
           req' = req \<and>
           html = page_top L H P options @ heading ''h2'' ''No request object supplied''
                    @ template_close"
    and "truthy (js_prop req ''headers'') \<Longrightarrow>
           \<exists>ps proto ra cs. req = Obj ps \<and> protocol req = Inr proto \<and> remoteAddr req = Inr ra
             \<and> cookies req = Inr cs
             \<and> req' = Obj (obj_set (obj_set (obj_set (obj_set ps
                   ''href'' (Str (href L req proto)))
                   ''ip_addr'' (ipAddr L req ra))
                   ''cookies'' cs)
                   ''headers'' (deleted (js_prop req ''headers'') ''cookie''))
             \<and> html = page_top L H P options @ request_section L req' @ template_close"
proof -
  show "P' = context_process L H P"
    using assms by (auto simp: nodeinfo_def split: sum.splits if_splits)
  show "req' = req \<and>
      html = page_top L H P options @ heading ''h2'' ''No request object supplied''
               @ template_close"
    if "\<not> truthy (js_prop req ''headers'')"
    using assms that
    by (auto simp: nodeinfo_def get_def page_without_request split: sum.splits if_splits)
  show "\<exists>ps proto ra cs. req = Obj ps \<and> protocol req = Inr proto \<and> remoteAddr req = Inr ra
        \<and> cookies req = Inr cs
        \<and> req' = Obj (obj_set (obj_set (obj_set (obj_set ps
              ''href'' (Str (href L req proto)))
              ''ip_addr'' (ipAddr L req ra))
              ''cookies'' cs)
              ''headers'' (deleted (js_prop req ''headers'') ''cookie''))
        \<and> html = page_top L H P options @ request_section L req' @ template_close"
    if t: "truthy (js_prop req ''headers'')"
  proof -
    from t obtain ps where ps: "req = Obj ps" using truthy_prop_obj by blast
    from assms t ps obtain r where r: "request_facts L (Obj ps) = Inr r"
      by (auto simp: nodeinfo_def get_def split: sum.splits)
    from request_facts_Inr [OF r] obtain proto ra cs where
      ok: "protocol (Obj ps) = Inr proto" "remoteAddr (Obj ps) = Inr ra" "cookies (Obj ps) = Inr cs"
      by blast
    from t ps have t': "truthy (js_prop (Obj ps) ''headers'')" by simp
    from nodeinfo_ok [OF t' ok refl, of L H P options] assms ps
    show ?thesis
      using ok by (auto simp: page_with_request)
  qed
qed

subsection \<open>Escaping\<close>





lemma cookie_parse_example:
  "cookie_parse (Str ''a=1; b=2'') = Inr (Obj [(''a'', Str ''1''), (''b'', Str ''2'')])"
  by (simp add: cookie_parse_def trim_def is_space_def unquote_def url_decode_def obj_set_def
      array_index_def is_digit_def)

section \<open>The claims about the request\<close>

text \<open>
  Claim C2.  Calling \<open>nodeinfo\<close> without a request object should return the page with
  the "No request object supplied" row.  It does not: reading \<open>req.headers\<close> of
  \<open>undefined\<close> (or \<open>null\<close>) throws a TypeError before anything is rendered.
\<close>

theorem no_request_throws:
  "nodeinfo L H P Undefined options = Inl TypeError \<and> nodeinfo L H P Null options = Inl TypeError"
  by (simp add: nodeinfo_def get_def)

text \<open>
  Claim C10.  A request value whose \<open>headers\<close> property is missing or falsy is not
  taken for a request: the call returns, the request is left as it was, and the page is
  the part that does not depend on the request followed by the "No request object
  supplied" row.
\<close>

theorem falsy_headers_no_request:
  assumes "req \<noteq> Undefined" and "req \<noteq> Null" and "\<not> truthy (js_prop req ''headers'')"
  shows "nodeinfo L H P req options =
     Inr (page_top L H P options @ heading ''h2'' ''No request object supplied'' @ template_close,
          req, context_process L H P)"
  using nodeinfo_no_headers [OF assms] by (simp add: page_without_request)

theorem falsy_headers_no_request_witness:
  "nodeinfo example_lib example_host example_process (Obj [(''headers'', Str [])]) Undefined =
     Inr (page_top example_lib example_host example_process Undefined
            @ heading ''h2'' ''No request object supplied'' @ template_close,
          Obj [(''headers'', Str [])], context_process example_lib example_host example_process)"
  by (rule falsy_headers_no_request) simp_all

text \<open>
  Claim C6.  For a request with truthy \<open>headers\<close> on which the reads of \<open>nodeinfo\<close>
  succeed, the call returns; the \<open>href\<close> it stores and shows is the scheme, \<open>://\<close>,
  the host header and \<open>req.url\<close> (as strings), where the scheme is \<open>https\<close> exactly
  when \<open>req.socket.encrypted\<close> is truthy or the \<open>x-forwarded-proto\<close> header is
  \<open>https\<close>, and \<open>http\<close> otherwise.
\<close>

theorem href_reconstructed:
  assumes "truthy (js_prop req ''headers'')"
    and "js_prop req ''socket'' \<noteq> Undefined" and "js_prop req ''socket'' \<noteq> Null"
    and "remoteAddr req = Inr ra" and "cookies req = Inr cs"
  shows "\<exists>scheme html req' P' pre post.
     nodeinfo L H P req options = Inr (html, req', P') \<and>
     (scheme = ''https'' \<or> scheme = ''http'') \<and>
     (scheme = ''https'' \<longleftrightarrow>
        truthy (js_prop (js_prop req ''socket'') ''encrypted'') \<or>
        js_prop (js_prop req ''headers'') ''x-forwarded-proto'' = Str ''https'') \<and>
     js_prop req' ''href'' =
       Str (scheme @ ''://'' @ to_string L (js_prop (js_prop req ''headers'') ''host'')
              @ to_string L (js_prop req ''url'')) \<and>
     html = pre @ th_td ''href''
              @ escape_html (scheme @ ''://'' @ to_string L (js_prop (js_prop req ''headers'') ''host'')
                               @ to_string L (js_prop req ''url''))
              @ td_tr @ post"
proof -
  from assms(1) obtain ps where ps: "req = Obj ps" using truthy_prop_obj by blast
  define scheme where "scheme =
    (if truthy (js_prop (js_prop req ''socket'') ''encrypted'') \<or>
        js_prop (js_prop req ''headers'') ''x-forwarded-proto'' = Str ''https''
     then ''https'' else ''http'')"
  have proto: "protocol (Obj ps) = Inr scheme"
    using assms(2,3) ps by (simp add: protocol_def get_def scheme_def eq_https_def)
  define r where "r = Obj (obj_set (obj_set (obj_set (obj_set ps
            ''href'' (Str (href L (Obj ps) scheme)))
            ''ip_addr'' (ipAddr L (Obj ps) ra))
            ''cookies'' cs)
            ''headers'' (deleted (js_prop (Obj ps) ''headers'') ''cookie''))"
  have run: "nodeinfo L H P req options =
      Inr (page_top L H P options @ request_section L r @ template_close, r, context_process L H P)"
  proof -
    have "truthy (js_prop (Obj ps) ''headers'')" "remoteAddr (Obj ps) = Inr ra"
      "cookies (Obj ps) = Inr cs"
      using assms(1,4,5) ps by simp_all
    from nodeinfo_ok [OF this(1) proto this(2,3) r_def] show ?thesis
      by (simp add: page_with_request r_def ps)
  qed
  have stored: "js_prop r ''href'' = Str (href L (Obj ps) scheme)"
    by (simp add: r_def map_of_obj_set)
  have "\<exists>pre post. page_top L H P options @ request_section L r @ template_close =
      pre @ th_td ''href'' @ escapeExpression L (js_prop r ''href'') @ td_tr @ post"
    unfolding request_section_def
    by (metis append.assoc)
  then obtain pre post where shown: "page_top L H P options @ request_section L r @ template_close =
      pre @ th_td ''href'' @ escape_html (href L (Obj ps) scheme) @ td_tr @ post"
    unfolding stored by auto
  have s1: "scheme = ''https'' \<or> scheme = ''http''" by (simp add: scheme_def)
  have s2: "scheme = ''https'' \<longleftrightarrow>
        truthy (js_prop (js_prop req ''socket'') ''encrypted'') \<or>
        js_prop (js_prop req ''headers'') ''x-forwarded-proto'' = Str ''https''"
    by (simp add: scheme_def)
  from run stored shown s1 s2 show ?thesis
    unfolding href_def ps by blast
qed

theorem href_reconstructed_witness:
  "\<exists>scheme html req' P' pre post.
     nodeinfo example_lib example_host example_process
       (example_request [(''host'', Str ''example.org''), (''x-forwarded-proto'', Str ''https'')])
       Undefined = Inr (html, req', P') \<and>
     (scheme = ''https'' \<or> scheme = ''http'') \<and>
     (scheme = ''https'' \<longleftrightarrow>
        truthy (js_prop (js_prop (example_request [(''host'', Str ''example.org''),
           (''x-forwarded-proto'', Str ''https'')]) ''socket'') ''encrypted'') \<or>
        js_prop (js_prop (example_request [(''host'', Str ''example.org''),
           (''x-forwarded-proto'', Str ''https'')]) ''headers'') ''x-forwarded-proto'' = Str ''https'') \<and>
     js_prop req' ''href'' =
       Str (scheme @ ''://'' @ to_string example_lib (js_prop (js_prop (example_request
              [(''host'', Str ''example.org''), (''x-forwarded-proto'', Str ''https'')]) ''headers'') ''host'')
              @ to_string example_lib (js_prop (example_request [(''host'', Str ''example.org''),
                  (''x-forwarded-proto'', Str ''https'')]) ''url'')) \<and>
     html = pre @ th_td ''href''
              @ escape_html (scheme @ ''://'' @ to_string example_lib (js_prop (js_prop (example_request
                  [(''host'', Str ''example.org''), (''x-forwarded-proto'', Str ''https'')]) ''headers'') ''host'')
                  @ to_string example_lib (js_prop (example_request [(''host'', Str ''example.org''),
                      (''x-forwarded-proto'', Str ''https'')]) ''url''))
              @ td_tr @ post"
  by (rule href_reconstructed [where ra = "Str ''10.0.0.1''" and cs = "Obj []"])
     (simp_all add: example_request_def example_transport_def remoteAddr_def cookies_def get_def)

lemma nodeinfo_returns:
  assumes "truthy (js_prop req ''headers'')"
    and "js_prop req ''socket'' \<noteq> Undefined" and "js_prop req ''socket'' \<noteq> Null"
    and "remoteAddr req = Inr ra" and "cookies req = Inr cs"
  shows "\<exists>r. nodeinfo L H P req options =
           Inr (page_top L H P options @ request_section L r @ template_close, r,
                context_process L H P) \<and>
         js_prop r ''ip_addr'' = ipAddr L req ra \<and>
         js_prop r ''cookies'' = cs \<and>
         js_prop r ''headers'' = deleted (js_prop req ''headers'') ''cookie''"
proof -
  from assms(1) obtain ps where ps: "req = Obj ps" using truthy_prop_obj by blast
  obtain proto where proto: "protocol (Obj ps) = Inr proto"
    using assms(2,3) ps by (simp add: protocol_def get_def)
  define r where "r = Obj (obj_set (obj_set (obj_set (obj_set ps
            ''href'' (Str (href L (Obj ps) proto)))
            ''ip_addr'' (ipAddr L (Obj ps) ra))
            ''cookies'' cs)
            ''headers'' (deleted (js_prop (Obj ps) ''headers'') ''cookie''))"
  have "truthy (js_prop (Obj ps) ''headers'')" "remoteAddr (Obj ps) = Inr ra"
    "cookies (Obj ps) = Inr cs"
    using assms(1,4,5) ps by simp_all
  from nodeinfo_ok [OF this(1) proto this(2,3) r_def]
  have "nodeinfo L H P req options =
      Inr (page_top L H P options @ request_section L r @ template_close, r, context_process L H P)"
    by (simp add: page_with_request r_def ps)
  moreover have "js_prop r ''ip_addr'' = ipAddr L req ra" "js_prop r ''cookies'' = cs"
    "js_prop r ''headers'' = deleted (js_prop req ''headers'') ''cookie''"
    by (simp_all add: r_def map_of_obj_set ps)
  ultimately show ?thesis by blast
qed

lemma remoteAddr_first_truthy:
  assumes "remoteAddr req = Inr ra"
  shows "ra =
     (if truthy (js_prop (js_prop req ''connection'') ''remoteAddress'')
      then js_prop (js_prop req ''connection'') ''remoteAddress''
      else if truthy (js_prop (js_prop req ''socket'') ''remoteAddress'')
      then js_prop (js_prop req ''socket'') ''remoteAddress''
      else js_prop (js_prop (js_prop req ''connection'') ''socket'') ''remoteAddress'')"
  using assms by (auto simp: remoteAddr_def get_def split: if_splits)

text \<open>
  Claim C5, as amended.  For a request with truthy \<open>headers\<close> on which the reads of
  \<open>nodeinfo\<close> succeed, the call returns, and the client address it stores and shows is
  the \<open>x-forwarded-for\<close> header, \<open>" via "\<close> and the peer address when that header is
  truthy (present and not empty), and the peer address alone otherwise; the peer address
  is \<open>req.connection.remoteAddress\<close> if truthy, else \<open>req.socket.remoteAddress\<close> if
  truthy, else \<open>req.connection.socket.remoteAddress\<close>.
\<close>

theorem client_address:
  assumes "truthy (js_prop req ''headers'')"
    and "js_prop req ''socket'' \<noteq> Undefined" and "js_prop req ''socket'' \<noteq> Null"
    and "remoteAddr req = Inr ra" and "cookies req = Inr cs"
  shows "\<exists>html req' P' pre post.
     nodeinfo L H P req options = Inr (html, req', P') \<and>
     ra = (if truthy (js_prop (js_prop req ''connection'') ''remoteAddress'')
           then js_prop (js_prop req ''connection'') ''remoteAddress''
           else if truthy (js_prop (js_prop req ''socket'') ''remoteAddress'')
           then js_prop (js_prop req ''socket'') ''remoteAddress''
           else js_prop (js_prop (js_prop req ''connection'') ''socket'') ''remoteAddress'') \<and>
     js_prop req' ''ip_addr'' =
       (if truthy (js_prop (js_prop req ''headers'') ''x-forwarded-for'')
        then Str (to_string L (js_prop (js_prop req ''headers'') ''x-forwarded-for'')
                    @ '' via '' @ to_string L ra)
        else ra) \<and>
     html = pre @ th_td ''remote ip'' @ escapeExpression L (js_prop req' ''ip_addr'') @ td_tr @ post"
proof -
  from nodeinfo_returns [OF assms, of L H P options] obtain r where
    run: "nodeinfo L H P req options =
       Inr (page_top L H P options @ request_section L r @ template_close, r,
            context_process L H P)"
    and ip: "js_prop r ''ip_addr'' = ipAddr L req ra"
    by blast
  have "\<exists>pre post. page_top L H P options @ request_section L r @ template_close =
      pre @ th_td ''remote ip'' @ escapeExpression L (js_prop r ''ip_addr'') @ td_tr @ post"
    unfolding request_section_def by (metis append.assoc)
  with run ip remoteAddr_first_truthy [OF assms(4)] show ?thesis
    unfolding ipAddr_def Let_def by blast
qed

theorem client_address_witness:
  "\<exists>html req' P' pre post.
     nodeinfo example_lib example_host example_process
       (example_request [(''host'', Str ''example.org''), (''x-forwarded-for'', Str ''9.9.9.9'')])
       Undefined = Inr (html, req', P') \<and>
     js_prop req' ''ip_addr'' = Str ''9.9.9.9 via 10.0.0.1'' \<and>
     html = pre @ th_td ''remote ip'' @ escapeExpression example_lib (js_prop req' ''ip_addr'')
              @ td_tr @ post"
proof -
  have "remoteAddr (example_request [(''host'', Str ''example.org''),
      (''x-forwarded-for'', Str ''9.9.9.9'')]) = Inr (Str ''10.0.0.1'')"
    by (simp add: example_request_def example_transport_def remoteAddr_def get_def)
  from client_address [OF _ _ _ this, of "Obj []" example_lib example_host example_process Undefined]
  show ?thesis
    by (simp add: example_request_def example_transport_def cookies_def)
qed

text \<open>
  A request whose \<open>x-forwarded-for\<close> header is present and empty: the address shown
  is the peer address alone, not the header value, \<open>" via "\<close> and the peer address.
\<close>

theorem empty_forwarded_for_counterexample:
  "map_sum id (fst \<circ> snd)
     (nodeinfo example_lib example_host example_process
        (example_request [(''host'', Str ''example.org''), (''x-forwarded-for'', Str [])])
        Undefined) =
   Inr (Obj [(''method'', Str ''GET''), (''url'', Str ''/info''),
             (''headers'', Obj [(''host'', Str ''example.org''), (''x-forwarded-for'', Str [])]),
             (''socket'', example_transport), (''connection'', example_transport),
             (''href'', Str ''http://example.org/info''),
             (''ip_addr'', Str ''10.0.0.1''),
             (''cookies'', Obj [])])"
  by (simp add: nodeinfo_def get_def request_facts_def example_request_def example_transport_def
      protocol_def eq_https_def href_def remoteAddr_def ipAddr_def cookies_def delete_prop_def
      obj_set_def obj_delete_def array_index_def is_digit_def)

text \<open>
  Claim C3.  For a request whose cookie header is \<open>a=1; b=2\<close>, on which the other reads
  of \<open>nodeinfo\<close> succeed, the call returns, the cookie mapping it stores is exactly
  \<open>{a: "1", b: "2"}\<close>, the cookie header is gone from the headers object, and the page
  has the header rows of the remaining headers, followed by the cookie table with the
  two cookies.
\<close>

theorem cookies_parsed_and_removed:
  assumes "js_prop req ''headers'' = Obj hs"
    and "map_of hs ''cookie'' = Some (Str ''a=1; b=2'')"
    and "js_prop req ''socket'' \<noteq> Undefined" and "js_prop req ''socket'' \<noteq> Null"
    and "remoteAddr req = Inr ra"
  shows "\<exists>html req' P' pre.
     nodeinfo L H P req options = Inr (html, req', P') \<and>
     js_prop req' ''cookies'' = Obj [(''a'', Str ''1''), (''b'', Str ''2'')] \<and>
     js_prop req' ''headers'' = Obj (obj_delete hs ''cookie'') \<and>
     ''cookie'' \<notin> set (map fst (obj_delete hs ''cookie'')) \<and>
     html = pre @ header_rows L (obj_delete hs ''cookie'') @ cookies_open
              @ cookie_rows L [(''a'', Str ''1''), (''b'', Str ''2'')] @ cookies_close
              @ template_close"
proof -
  have t: "truthy (js_prop req ''headers'')" by (simp add: assms(1))
  have c: "cookies req = Inr (Obj [(''a'', Str ''1''), (''b'', Str ''2'')])"
    by (simp add: cookies_def assms(1,2) cookie_parse_example)
  from nodeinfo_returns [OF t assms(3,4,5) c, of L H P options] obtain r where
    run: "nodeinfo L H P req options =
       Inr (page_top L H P options @ request_section L r @ template_close, r,
            context_process L H P)"
    and cs: "js_prop r ''cookies'' = Obj [(''a'', Str ''1''), (''b'', Str ''2'')]"
    and hd: "js_prop r ''headers'' = Obj (obj_delete hs ''cookie'')"
    by (auto simp: assms(1))
  have "\<exists>pre. page_top L H P options @ request_section L r @ template_close =
      pre @ header_rows L (obj_delete hs ''cookie'') @ cookies_open
        @ cookie_rows L [(''a'', Str ''1''), (''b'', Str ''2'')] @ cookies_close @ template_close"
    unfolding request_section_def cs hd props_of.simps by (metis append.assoc)
  moreover have "''cookie'' \<notin> set (map fst (obj_delete hs ''cookie''))"
    by (auto simp: obj_delete_def)
  ultimately show ?thesis using run cs hd by blast
qed

theorem cookies_parsed_and_removed_witness:
  "\<exists>html req' P' pre.
     nodeinfo example_lib example_host example_process
       (example_request [(''host'', Str ''example.org''), (''cookie'', Str ''a=1; b=2'')])
       Undefined = Inr (html, req', P') \<and>
     js_prop req' ''cookies'' = Obj [(''a'', Str ''1''), (''b'', Str ''2'')] \<and>
     js_prop req' ''headers'' = Obj [(''host'', Str ''example.org'')] \<and>
     html = pre @ header_rows example_lib [(''host'', Str ''example.org'')] @ cookies_open
              @ cookie_rows example_lib [(''a'', Str ''1''), (''b'', Str ''2'')] @ cookies_close
              @ template_close"
proof -
  have "remoteAddr (example_request [(''host'', Str ''example.org''),
      (''cookie'', Str ''a=1; b=2'')]) = Inr (Str ''10.0.0.1'')"
    by (simp add: example_request_def example_transport_def remoteAddr_def get_def)
  from cookies_parsed_and_removed [OF _ _ _ _ this,
      of "[(''host'', Str ''example.org''), (''cookie'', Str ''a=1; b=2'')]"
         example_lib example_host example_process Undefined]
  show ?thesis
    by (simp add: example_request_def example_transport_def obj_delete_def)
qed

section \<open>Escaping and the style override\<close>



section \<open>What a call changes\<close>

lemma map_of_obj_delete:
  "map_of (obj_delete ps k) k' = (if k' = k then None else map_of ps k')"
  by (induction ps) (auto simp: obj_delete_def)

lemma truthy_deleted: "truthy (deleted h k) = truthy h"
  by (cases h) simp_all

lemma js_prop_deleted:
  "js_prop (deleted h k) k' = (if k' = k then Undefined else js_prop h k')"
  by (cases h) (simp_all add: map_of_obj_delete)

lemma deleted_idem: "deleted (deleted h k) k = deleted h k"
  by (cases h) (simp_all add: obj_delete_def)

lemma context_process_idem:
  "context_process L H (context_process L H P) = context_process L H P"
proof -
  define r where "r = Str (prettysize L (double_of_nat (rss (memoryUsage H))))"
  define t where "t = Str (prettysize L (double_of_nat (heapTotal (memoryUsage H))))"
  define u where "u = Str (prettysize L (double_of_nat (heapUsed (memoryUsage H))))"
  define Q where "Q = obj_set (obj_set (obj_set P ''rss'' r) ''heapTotal'' t) ''heapUsed'' u"
  have 1: "obj_set Q ''rss'' r = Q"
    by (rule obj_set_same) (simp add: Q_def map_of_obj_set)
  have 2: "obj_set Q ''heapTotal'' t = Q"
    by (rule obj_set_same) (simp add: Q_def map_of_obj_set)
  have 3: "obj_set Q ''heapUsed'' u = Q"
    by (rule obj_set_same) (simp add: Q_def map_of_obj_set)
  have "context_process L H P = Q"
    by (simp add: context_process_def Q_def r_def t_def u_def)
  moreover have "context_process L H Q = obj_set (obj_set (obj_set Q ''rss'' r) ''heapTotal'' t) ''heapUsed'' u"
    by (simp add: context_process_def r_def t_def u_def)
  ultimately show ?thesis by (simp add: 1 2 3)
qed

lemma make_context_idem:
  "make_context L H (context_process L H P) options = make_context L H P options"
  by (simp add: make_context_def context_process_idem)

lemma second_call:
  assumes "nodeinfo L H P req options = Inr (html, req', P')"
    and "\<not> truthy (js_prop (js_prop req ''headers'') ''cookie'')"
  shows "nodeinfo L H P' req' options = Inr (html, req', P')"
proof (cases "truthy (js_prop req ''headers'')")
  case False
  from nodeinfo_Inr(1,2) [OF assms(1)] False
  have P': "P' = context_process L H P" and r: "req' = req"
    and html: "html = page_top L H P options @ heading ''h2'' ''No request object supplied''
                    @ template_close"
    by auto
  have ne: "req \<noteq> Undefined" "req \<noteq> Null"
    using assms(1) by (auto simp: nodeinfo_def get_def)
  have "page_top L H P' options = page_top L H P options"
    by (simp add: page_top_def P' make_context_idem)
  with nodeinfo_no_headers [OF ne False, of L H P' options] show ?thesis
    by (simp add: page_without_request P' r html context_process_idem)
next
  case True
  from nodeinfo_Inr(1) [OF assms(1)] have P': "P' = context_process L H P" .
  from nodeinfo_Inr(3) [OF assms(1) True] obtain ps proto ra cs where
    ps: "req = Obj ps" and proto: "protocol (Obj ps) = Inr proto"
    and ra: "remoteAddr (Obj ps) = Inr ra" and cs: "cookies (Obj ps) = Inr cs"
    and r: "req' = Obj (obj_set (obj_set (obj_set (obj_set ps
                   ''href'' (Str (href L (Obj ps) proto)))
                   ''ip_addr'' (ipAddr L (Obj ps) ra))
                   ''cookies'' cs)
                   ''headers'' (deleted (js_prop (Obj ps) ''headers'') ''cookie''))"
    and html: "html = page_top L H P options @ request_section L req' @ template_close"
    by auto
  define rs where "rs = obj_set (obj_set (obj_set (obj_set ps
                   ''href'' (Str (href L (Obj ps) proto)))
                   ''ip_addr'' (ipAddr L (Obj ps) ra))
                   ''cookies'' cs)
                   ''headers'' (deleted (js_prop (Obj ps) ''headers'') ''cookie'')"
  have cs0: "cs = Obj []"
    using cs assms(2) ps by (simp add: cookies_def)
  have hd: "js_prop (Obj rs) ''headers'' = deleted (js_prop (Obj ps) ''headers'') ''cookie''"
    by (simp add: rs_def map_of_obj_set)
  have t2: "truthy (js_prop (Obj rs) ''headers'')"
    using True ps by (simp only: hd truthy_deleted)
  have other: "js_prop (Obj rs) ''socket'' = js_prop (Obj ps) ''socket''"
    "js_prop (Obj rs) ''url'' = js_prop (Obj ps) ''url''"
    by (simp_all add: rs_def map_of_obj_set)
  have hdrs: "js_prop (js_prop (Obj rs) ''headers'') ''x-forwarded-proto'' =
       js_prop (js_prop (Obj ps) ''headers'') ''x-forwarded-proto''"
    "js_prop (js_prop (Obj rs) ''headers'') ''x-forwarded-for'' =
       js_prop (js_prop (Obj ps) ''headers'') ''x-forwarded-for''"
    "js_prop (js_prop (Obj rs) ''headers'') ''host'' =
       js_prop (js_prop (Obj ps) ''headers'') ''host''"
    "js_prop (js_prop (Obj rs) ''headers'') ''cookie'' = Undefined"
    by (simp_all only: hd js_prop_deleted) simp_all
  have "protocol (Obj rs) = protocol (Obj ps)"
    by (simp add: protocol_def get_def other hdrs del: js_prop.simps)
  with proto have proto2: "protocol (Obj rs) = Inr proto" by simp
  have ra2: "remoteAddr (Obj rs) = Inr ra"
    using ra by (simp add: rs_def remoteAddr_obj_set)
  have cs2: "cookies (Obj rs) = Inr cs"
    by (simp add: cookies_def hdrs cs0 del: js_prop.simps)
  have href2: "href L (Obj rs) proto = href L (Obj ps) proto"
    by (simp add: href_def hdrs other del: js_prop.simps)
  have ip2: "ipAddr L (Obj rs) ra = ipAddr L (Obj ps) ra"
    by (simp add: ipAddr_def hdrs del: js_prop.simps)
  have del2: "deleted (js_prop (Obj rs) ''headers'') ''cookie'' =
      deleted (js_prop (Obj ps) ''headers'') ''cookie''"
    by (simp only: hd deleted_idem)
  have s1: "obj_set rs ''href'' (Str (href L (Obj ps) proto)) = rs"
    by (rule obj_set_same) (simp add: rs_def map_of_obj_set)
  have s2: "obj_set rs ''ip_addr'' (ipAddr L (Obj ps) ra) = rs"
    by (rule obj_set_same) (simp add: rs_def map_of_obj_set)
  have s3: "obj_set rs ''cookies'' cs = rs"
    by (rule obj_set_same) (simp add: rs_def map_of_obj_set)
  have s4: "obj_set rs ''headers'' (deleted (js_prop (Obj ps) ''headers'') ''cookie'') = rs"
    by (rule obj_set_same) (simp add: rs_def map_of_obj_set)
  have fixed: "Obj rs = Obj (obj_set (obj_set (obj_set (obj_set rs
            ''href'' (Str (href L (Obj rs) proto)))
            ''ip_addr'' (ipAddr L (Obj rs) ra))
            ''cookies'' cs)
            ''headers'' (deleted (js_prop (Obj rs) ''headers'') ''cookie''))"
    by (simp only: href2 ip2 del2 s1 s2 s3 s4)
  from nodeinfo_ok [OF t2 proto2 ra2 cs2 fixed, of H P' options]
  have "nodeinfo L H P' (Obj rs) options =
      Inr (page_top L H P options @ request_section L (Obj rs) @ template_close, Obj rs, P')"
    by (simp add: page_with_request P' context_process_idem page_top_def make_context_idem)
  moreover have "req' = Obj rs" using r by (simp only: rs_def)
  ultimately show ?thesis by (simp only: html)
qed

text \<open>
  Claim C1, as amended.  A call that returns leaves the global \<open>process\<close> object with
  \<open>rss\<close>, \<open>heapTotal\<close> and \<open>heapUsed\<close> set.  A request whose \<open>headers\<close> are
  falsy is left as it was; a request with truthy \<open>headers\<close> is changed: \<open>href\<close>,
  \<open>ip_addr\<close> and \<open>cookies\<close> are set on it and the cookie header is deleted from its
  headers.  Calling again on the same host facts, with the request and the \<open>process\<close>
  object as the first call left them, returns the same page and changes nothing more,
  provided the request had no truthy cookie header.
\<close>

theorem nodeinfo_effects:
  assumes "nodeinfo L H P req options = Inr (html, req', P')"
  shows "P' = obj_set (obj_set (obj_set P
            ''rss'' (Str (prettysize L (double_of_nat (rss (memoryUsage H))))))
            ''heapTotal'' (Str (prettysize L (double_of_nat (heapTotal (memoryUsage H))))))
            ''heapUsed'' (Str (prettysize L (double_of_nat (heapUsed (memoryUsage H))))) \<and>
         (\<not> truthy (js_prop req ''headers'') \<longrightarrow> req' = req) \<and>
         (truthy (js_prop req ''headers'') \<longrightarrow>
            (\<exists>ps proto ra cs. req = Obj ps \<and> protocol req = Inr proto \<and>
               remoteAddr req = Inr ra \<and> cookies req = Inr cs \<and>
               req' = Obj (obj_set (obj_set (obj_set (obj_set ps
                   ''href'' (Str (href L req proto)))
                   ''ip_addr'' (ipAddr L req ra))
                   ''cookies'' cs)
                   ''headers'' (deleted (js_prop req ''headers'') ''cookie'')))) \<and>
         (\<not> truthy (js_prop (js_prop req ''headers'') ''cookie'') \<longrightarrow>
            nodeinfo L H P' req' options = Inr (html, req', P'))"
proof (intro conjI impI)
  show "P' = obj_set (obj_set (obj_set P
            ''rss'' (Str (prettysize L (double_of_nat (rss (memoryUsage H))))))
            ''heapTotal'' (Str (prettysize L (double_of_nat (heapTotal (memoryUsage H))))))
            ''heapUsed'' (Str (prettysize L (double_of_nat (heapUsed (memoryUsage H)))))"
    using nodeinfo_Inr(1) [OF assms] by (simp add: context_process_def)
next
  assume "\<not> truthy (js_prop req ''headers'')"
  with nodeinfo_Inr(2) [OF assms] show "req' = req" by simp
next
  assume "truthy (js_prop req ''headers'')"
  from nodeinfo_Inr(3) [OF assms this]
  show "\<exists>ps proto ra cs. req = Obj ps \<and> protocol req = Inr proto \<and>
               remoteAddr req = Inr ra \<and> cookies req = Inr cs \<and>
               req' = Obj (obj_set (obj_set (obj_set (obj_set ps
                   ''href'' (Str (href L req proto)))
                   ''ip_addr'' (ipAddr L req ra))
                   ''cookies'' cs)
                   ''headers'' (deleted (js_prop req ''headers'') ''cookie''))"
    by blast
next
  assume "\<not> truthy (js_prop (js_prop req ''headers'') ''cookie'')"
  with second_call [OF assms] show "nodeinfo L H P' req' options = Inr (html, req', P')" .
qed

theorem nodeinfo_effects_witness:
  "\<exists>html req' P'.
     nodeinfo example_lib example_host example_process
       (example_request [(''host'', Str ''example.org'')]) Undefined = Inr (html, req', P') \<and>
     P' = example_process @
            [(''rss'', Str ''1 KB''), (''heapTotal'', Str ''1 KB''), (''heapUsed'', Str ''1 KB'')] \<and>
     req' = Obj [(''method'', Str ''GET''), (''url'', Str ''/info''),
                 (''headers'', Obj [(''host'', Str ''example.org'')]),
                 (''socket'', example_transport), (''connection'', example_transport),
                 (''href'', Str ''http://example.org/info''),
                 (''ip_addr'', Str ''10.0.0.1''),
                 (''cookies'', Obj [])] \<and>
     nodeinfo example_lib example_host P' req' Undefined = Inr (html, req', P')"
proof -
  define req where "req = example_request [(''host'', Str ''example.org'')]"
  have pre: "truthy (js_prop req ''headers'')" "js_prop req ''socket'' \<noteq> Undefined"
    "js_prop req ''socket'' \<noteq> Null" "remoteAddr req = Inr (Str ''10.0.0.1'')"
    "cookies req = Inr (Obj [])"
    by (simp_all add: req_def example_request_def example_transport_def remoteAddr_def
        cookies_def get_def)
  from nodeinfo_returns [OF pre, of example_lib example_host example_process Undefined]
  obtain html r P' where run: "nodeinfo example_lib example_host example_process req Undefined
      = Inr (html, r, P')"
    by blast
  have nc: "\<not> truthy (js_prop (js_prop req ''headers'') ''cookie'')"
    by (simp add: req_def example_request_def)
  from nodeinfo_effects [OF run] pre(1) nc
  have P': "P' = obj_set (obj_set (obj_set example_process
            ''rss'' (Str (prettysize example_lib (double_of_nat (rss (memoryUsage example_host))))))
            ''heapTotal'' (Str (prettysize example_lib (double_of_nat (heapTotal (memoryUsage example_host))))))
            ''heapUsed'' (Str (prettysize example_lib (double_of_nat (heapUsed (memoryUsage example_host)))))"
    and again: "nodeinfo example_lib example_host P' r Undefined = Inr (html, r, P')"
    by blast+
  have P'': "P' = example_process @
      [(''rss'', Str ''1 KB''), (''heapTotal'', Str ''1 KB''), (''heapUsed'', Str ''1 KB'')]"
    unfolding P'
    by (simp add: example_lib_def example_process_def obj_set_def array_index_def is_digit_def)
  have "map_sum id (fst \<circ> snd) (nodeinfo example_lib example_host example_process req Undefined) =
      Inr (Obj [(''method'', Str ''GET''), (''url'', Str ''/info''),
                 (''headers'', Obj [(''host'', Str ''example.org'')]),
                 (''socket'', example_transport), (''connection'', example_transport),
                 (''href'', Str ''http://example.org/info''),
                 (''ip_addr'', Str ''10.0.0.1''),
                 (''cookies'', Obj [])])"
    by (simp add: req_def nodeinfo_def get_def request_facts_def example_request_def
        example_transport_def protocol_def eq_https_def href_def remoteAddr_def ipAddr_def
        cookies_def delete_prop_def obj_set_def obj_delete_def array_index_def is_digit_def)
  with run have r: "r = Obj [(''method'', Str ''GET''), (''url'', Str ''/info''),
                 (''headers'', Obj [(''host'', Str ''example.org'')]),
                 (''socket'', example_transport), (''connection'', example_transport),
                 (''href'', Str ''http://example.org/info''),
                 (''ip_addr'', Str ''10.0.0.1''),
                 (''cookies'', Obj [])]"
    by simp
  from run again P'' r show ?thesis
    unfolding req_def by blast
qed

text \<open>
  A request with a cookie header: the call changes the request object and the
  \<open>process\<close> object, and a second call on the objects as the first one left them
  returns a different page (the cookie rows are gone).
\<close>

theorem repeated_call_counterexample:
  "map_sum id snd
     (nodeinfo example_lib example_host example_process
        (example_request [(''host'', Str ''example.org''), (''cookie'', Str ''a=1; b=2'')])
        Undefined) =
   Inr (Obj [(''method'', Str ''GET''), (''url'', Str ''/info''),
             (''headers'', Obj [(''host'', Str ''example.org'')]),
             (''socket'', example_transport), (''connection'', example_transport),
             (''href'', Str ''http://example.org/info''),
             (''ip_addr'', Str ''10.0.0.1''),
             (''cookies'', Obj [(''a'', Str ''1''), (''b'', Str ''2'')])],
        example_process @
          [(''rss'', Str ''1 KB''), (''heapTotal'', Str ''1 KB''), (''heapUsed'', Str ''1 KB'')]) \<and>
   map_sum id fst
     (nodeinfo example_lib example_host
        (example_process @
          [(''rss'', Str ''1 KB''), (''heapTotal'', Str ''1 KB''), (''heapUsed'', Str ''1 KB'')])
        (Obj [(''method'', Str ''GET''), (''url'', Str ''/info''),
             (''headers'', Obj [(''host'', Str ''example.org'')]),
             (''socket'', example_transport), (''connection'', example_transport),
             (''href'', Str ''http://example.org/info''),
             (''ip_addr'', Str ''10.0.0.1''),
             (''cookies'', Obj [(''a'', Str ''1''), (''b'', Str ''2'')])])
        Undefined) \<noteq>
   map_sum id fst
     (nodeinfo example_lib example_host example_process
        (example_request [(''host'', Str ''example.org''), (''cookie'', Str ''a=1; b=2'')])
        Undefined)"
proof -
  define req where "req = example_request [(''host'', Str ''example.org''),
      (''cookie'', Str ''a=1; b=2'')]"
  define r1 where "r1 = Obj [(''method'', Str ''GET''), (''url'', Str ''/info''),
             (''headers'', Obj [(''host'', Str ''example.org'')]),
             (''socket'', example_transport), (''connection'', example_transport),
             (''href'', Str ''http://example.org/info''),
             (''ip_addr'', Str ''10.0.0.1''),
             (''cookies'', Obj [(''a'', Str ''1''), (''b'', Str ''2'')])]"
  define r2 where "r2 = Obj [(''method'', Str ''GET''), (''url'', Str ''/info''),
             (''headers'', Obj [(''host'', Str ''example.org'')]),
             (''socket'', example_transport), (''connection'', example_transport),
             (''href'', Str ''http://example.org/info''),
             (''ip_addr'', Str ''10.0.0.1''),
             (''cookies'', Obj [])]"
  define P1 where "P1 = example_process @
          [(''rss'', Str ''1 KB''), (''heapTotal'', Str ''1 KB''), (''heapUsed'', Str ''1 KB'')]"
  have cp: "context_process example_lib example_host example_process = P1"
    by (simp add: context_process_def P1_def example_lib_def example_process_def obj_set_def
        array_index_def is_digit_def)
  have f1: "request_facts example_lib req = Inr r1"
    by (simp add: req_def r1_def request_facts_def get_def example_request_def
        example_transport_def protocol_def eq_https_def href_def remoteAddr_def ipAddr_def
        cookies_def cookie_parse_example delete_prop_def obj_set_def obj_delete_def
        array_index_def is_digit_def)
  have f2: "request_facts example_lib r1 = Inr r2"
    by (simp add: r1_def r2_def request_facts_def get_def
        example_transport_def protocol_def eq_https_def href_def remoteAddr_def ipAddr_def
        cookies_def delete_prop_def obj_set_def obj_delete_def
        array_index_def is_digit_def)
  have n1: "nodeinfo example_lib example_host example_process req Undefined =
      Inr (page_top example_lib example_host example_process Undefined
             @ request_section example_lib r1 @ template_close, r1, P1)"
    using f1 by (simp add: nodeinfo_def get_def req_def example_request_def cp
        page_with_request r1_def)
  have idem: "context_process example_lib example_host P1 = P1"
    using context_process_idem [of example_lib example_host example_process] by (simp only: cp)
  have mc: "make_context example_lib example_host P1 Undefined =
      make_context example_lib example_host example_process Undefined"
    using make_context_idem [of example_lib example_host example_process Undefined]
    by (simp only: cp)
  have pw: "templateFn example_lib
      (Obj (make_context example_lib example_host example_process Undefined @ [(''request'', r2)])) =
      page_top example_lib example_host example_process Undefined
        @ request_section example_lib r2 @ template_close"
    unfolding r2_def by (rule page_with_request)
  have "nodeinfo example_lib example_host P1 r1 Undefined =
      Inr (templateFn example_lib
             (Obj (make_context example_lib example_host P1 Undefined @ [(''request'', r2)])),
           r2, context_process example_lib example_host P1)"
    using f2 by (simp add: nodeinfo_def get_def r1_def)
  then have n2: "nodeinfo example_lib example_host P1 r1 Undefined =
      Inr (page_top example_lib example_host example_process Undefined
             @ request_section example_lib r2 @ template_close, r2, P1)"
    by (simp only: mc pw idem)
  have "request_section example_lib r2 \<noteq> request_section example_lib r1"
    by (simp add: request_section_def r1_def r2_def cookie_rows_def cookie_th_def)
  with n1 n2 show ?thesis
    unfolding req_def r1_def P1_def by simp
qed

section \<open>Numbers\<close>

lemma pow2_pos [simp]: "0 < pow2 e"
  by (simp add: pow2_def)

lemma pow2_add: "pow2 (a + b) = pow2 a * pow2 b"
  by (simp add: pow2_def power_int_add)

lemma pow2_mono: "a \<le> b \<Longrightarrow> pow2 a \<le> pow2 b"
  by (simp add: pow2_def power_int_increasing)

lemma pow2_less_imp: "pow2 a < pow2 b \<Longrightarrow> a < b"
  using pow2_mono [of b a] by (cases "a < b") auto

lemma pow2_nat: "pow2 (int n) = 2 ^ n"
  by (simp add: pow2_def)

lemma pow2_neg_nat: "pow2 (- int n) = 1 / 2 ^ n"
  by (simp add: pow2_def power_int_minus_divide)

lemma pow2_half: "pow2 (e - 1) = pow2 e / 2"
  using pow2_add [of e "- 1"] by (simp add: pow2_def)

lemma ilog2_bounds:
  assumes "0 < x"
  shows "pow2 (ilog2 x) \<le> x \<and> x < pow2 (ilog2 x + 1)"
proof (cases "1 \<le> x")
  case True
  define n where "n = nat \<lfloor>x\<rfloor>"
  define k where "k = floorlog 2 n"
  have n: "of_nat n \<le> x" "x < of_nat n + 1" "0 < n"
    using True by (simp_all add: n_def) linarith+
  from floorlog_bounds [of n 2] n(3) have b: "2 ^ (k - 1) \<le> n" "n < 2 ^ k"
    by (simp_all add: k_def)
  have k: "0 < k" using n(3) by (simp add: k_def floorlog_def)
  have il: "ilog2 x = int k - 1"
    using True by (simp add: ilog2_def k_def n_def)
  have "pow2 (int k - 1) = 2 ^ (k - 1)"
    using k pow2_nat [of "k - 1"] by (simp add: of_nat_diff)
  moreover have "(2::rat) ^ (k - 1) \<le> of_nat n"
    using b(1) by (metis of_nat_le_iff of_nat_numeral of_nat_power)
  moreover have "of_nat n + 1 \<le> (2::rat) ^ k"
  proof -
    from b(2) have "n + 1 \<le> 2 ^ k" by simp
    then have "(of_nat (n + 1) :: rat) \<le> of_nat (2 ^ k)" by (simp only: of_nat_le_iff)
    then show ?thesis by simp
  qed
  ultimately have "pow2 (int k - 1) \<le> x" "x < 2 ^ k"
    using n(1,2) by linarith+
  moreover have "ilog2 x + 1 = int k" by (simp add: il)
  then have "pow2 (ilog2 x + 1) = 2 ^ k" by (simp only: pow2_nat)
  ultimately show ?thesis by (simp only: il)
next
  case False
  define c where "c = \<lceil>1 / x\<rceil>"
  define n where "n = nat (c - 1)"
  define k where "k = floorlog 2 n"
  have x1: "1 < 1 / x" using assms False by simp
  have c: "1 / x \<le> of_int c" "of_int c - 1 < 1 / x"
    by (simp_all add: c_def) linarith
  have c2: "2 \<le> c" using x1 c(1) by linarith
  have n: "0 < n" "of_nat n = (of_int c - 1 :: rat)"
    using c2 by (simp_all add: n_def)
  from floorlog_bounds [of n 2] n(1) have b: "2 ^ (k - 1) \<le> n" "n < 2 ^ k"
    by (simp_all add: k_def)
  have k: "0 < k" using n(1) by (simp add: k_def floorlog_def)
  have il: "ilog2 x = - int k"
    using False by (simp add: ilog2_def k_def n_def c_def)
  have up: "1 / x \<le> 2 ^ k"
  proof -
    from b(2) have "n + 1 \<le> 2 ^ k" by simp
    then have "(of_nat (n + 1) :: rat) \<le> of_nat (2 ^ k)" by (simp only: of_nat_le_iff)
    then have "of_int c \<le> (2::rat) ^ k" using n(2) by simp
    with c(1) show ?thesis by linarith
  qed
  have lo: "2 ^ (k - 1) < 1 / x"
  proof -
    have "(2::rat) ^ (k - 1) \<le> of_nat n"
      using b(1) by (metis of_nat_le_iff of_nat_numeral of_nat_power)
    with c(2) n(2) show ?thesis by linarith
  qed
  have "pow2 (- int k) \<le> x"
    using up assms by (simp add: pow2_neg_nat field_simps)
  moreover have "x < pow2 (- int k + 1)"
  proof -
    have "- int k + 1 = - int (k - 1)" using k by simp
    then have eq: "pow2 (- int k + 1) = 1 / 2 ^ (k - 1)" by (simp only: pow2_neg_nat)
    have "x < 1 / 2 ^ (k - 1)" using lo assms by (simp add: field_simps)
    then show ?thesis by (simp only: eq)
  qed
  ultimately show ?thesis by (simp add: il)
qed

lemma ilog2_le:
  assumes "0 < x" and "x < pow2 (E + 1)"
  shows "ilog2 x \<le> E"
proof -
  from ilog2_bounds [OF assms(1)] assms(2) have "pow2 (ilog2 x) < pow2 (E + 1)" by linarith
  from pow2_less_imp [OF this] show ?thesis by simp
qed

lemma ilog2_ge:
  assumes "pow2 E \<le> x"
  shows "E \<le> ilog2 x"
proof -
  have "0 < x" using assms pow2_pos [of E] by linarith
  from ilog2_bounds [OF this] assms have "pow2 E < pow2 (ilog2 x + 1)" by linarith
  from pow2_less_imp [OF this] show ?thesis by simp
qed

lemma round_half_even_near: "\<bar>of_int (round_half_even y) - y\<bar> \<le> 1 / 2"
proof -
  have "of_int \<lfloor>y\<rfloor> \<le> y" "y < of_int \<lfloor>y\<rfloor> + 1" by linarith+
  then show ?thesis
    by (auto simp: round_half_even_def Let_def)
qed

lemma round_half_even_int: "round_half_even (of_int z) = z"
  by (simp add: round_half_even_def)

lemma round_half_even_ge:
  assumes "of_int z \<le> y"
  shows "z \<le> round_half_even y"
proof -
  from round_half_even_near [of y] assms
  have "(of_int z :: rat) < of_int (round_half_even y) + 1" by linarith
  then have "z < round_half_even y + 1" by (metis of_int_1 of_int_add of_int_less_iff)
  then show ?thesis by simp
qed

text \<open>The result of rounding a positive number, and how far it is from the number.\<close>

lemma to_double_abs:
  assumes "0 < x" and "x < pow2 (E + 1)" and "E \<le> 1000"
  shows "\<exists>y. to_double x = Fin y \<and> 0 \<le> y \<and> \<bar>y - x\<bar> \<le> pow2 (max E (- 1022) - 53)"
proof -
  define e where "e = max (ilog2 x) (- 1022)"
  define u where "u = pow2 (e - 52)"
  define m where "m = of_int (round_half_even (x / u)) * u"
  have u0: "0 < u" by (simp add: u_def)
  have e: "e \<le> max E (- 1022)"
    using ilog2_le [OF assms(1,2)] by (simp add: e_def)
  have "u / 2 = pow2 (e - 53)"
    using pow2_half [of "e - 52"] by (simp add: u_def)
  also have "\<dots> \<le> pow2 (max E (- 1022) - 53)"
    using e by (intro pow2_mono) simp
  finally have u2: "u / 2 \<le> pow2 (max E (- 1022) - 53)" .
  have "m - x = (of_int (round_half_even (x / u)) - x / u) * u"
    using u0 by (simp add: m_def field_simps)
  then have "\<bar>m - x\<bar> = \<bar>of_int (round_half_even (x / u)) - x / u\<bar> * u"
    using u0 by (simp only: abs_mult abs_of_pos)
  also have "\<dots> \<le> (1 / 2) * u"
    using round_half_even_near [of "x / u"] u0 by (intro mult_right_mono) simp_all
  finally have near: "\<bar>m - x\<bar> \<le> u / 2" by simp
  have m0: "0 \<le> m"
  proof -
    have "(of_int 0 :: rat) \<le> x / u" using assms(1) u0 by simp
    from round_half_even_ge [OF this] show ?thesis
      using u0 by (simp add: m_def)
  qed
  have "pow2 (max E (- 1022) - 53) \<le> pow2 1001"
    using assms(3) by (intro pow2_mono) simp
  moreover have "pow2 (E + 1) \<le> pow2 1001"
    using assms(3) by (intro pow2_mono) simp
  moreover have "pow2 1001 + pow2 1001 = pow2 1002"
    using pow2_half [of 1002] by simp
  moreover have "pow2 1002 < pow2 1024"
    by (simp add: pow2_def)
  ultimately have "m < pow2 1024"
    using near u2 assms(2) by linarith
  then have "to_double x = Fin m"
    using assms(1) by (simp add: to_double_def Let_def e_def [symmetric] u_def [symmetric] m_def [symmetric])
  with m0 near u2 show ?thesis by auto
qed

text \<open>A natural number below \<open>2^53\<close> is a binary64 value.\<close>

lemma to_double_nat:
  assumes "n < 2 ^ 53"
  shows "to_double (of_nat n) = Fin (of_nat n)"
proof (cases "n = 0")
  case True
  then show ?thesis by (simp add: to_double_def)
next
  case False
  define x where "x = (of_nat n :: rat)"
  define e where "e = ilog2 x"
  have x1: "1 \<le> x" using False by (simp add: x_def)
  then have x0: "0 < x" by simp
  have "pow2 0 \<le> x" using x1 by (simp add: pow2_def)
  from ilog2_ge [OF this] have e0: "0 \<le> e" by (simp add: e_def)
  have "x < pow2 (52 + 1)"
    using assms by (simp add: x_def pow2_def)
  from ilog2_le [OF x0 this] have e52: "e \<le> 52" by (simp add: e_def)
  define d where "d = nat (52 - e)"
  have "pow2 (e - 52) = 1 / 2 ^ d"
    using e52 pow2_neg_nat [of d] by (simp add: d_def)
  then have q: "x / pow2 (e - 52) = of_int (int n * 2 ^ d)"
    by (simp add: x_def)
  have m: "of_int (round_half_even (x / pow2 (e - 52))) * pow2 (e - 52) = x"
    unfolding q round_half_even_int using \<open>pow2 (e - 52) = 1 / 2 ^ d\<close> by (simp add: x_def)
  have "x < pow2 1024"
    using \<open>x < pow2 (52 + 1)\<close> pow2_mono [of 53 1024] by simp
  then show ?thesis
    using x0 e0 m by (simp add: to_double_def Let_def x_def [symmetric] e_def [symmetric] max_def)
qed

lemma double_of_nat_exact: "n < 2 ^ 53 \<Longrightarrow> double_of_nat n = Fin (of_nat n)"
  by (simp add: double_of_nat_def to_double_nat)

text \<open>A number from 1 on rounds to a positive number or overflows.\<close>

lemma to_double_ge1:
  assumes "1 \<le> x"
  shows "to_double x = PInf \<or> (\<exists>y. to_double x = Fin y \<and> 0 < y)"
proof -
  define e where "e = ilog2 x"
  define u where "u = pow2 (e - 52)"
  define m where "m = of_int (round_half_even (x / u)) * u"
  have x0: "0 < x" using assms by simp
  have u0: "0 < u" by (simp add: u_def)
  have "pow2 0 \<le> x" using assms by (simp add: pow2_def)
  from ilog2_ge [OF this] have e0: "0 \<le> e" by (simp add: e_def)
  have "(of_int 1 :: rat) \<le> x / u"
  proof -
    have "u \<le> pow2 e" unfolding u_def by (intro pow2_mono) simp
    also have "\<dots> \<le> x" using ilog2_bounds [OF x0] by (simp add: e_def)
    finally show ?thesis using u0 by simp
  qed
  from round_half_even_ge [OF this] have "0 < m"
    using u0 by (simp add: m_def)
  then show ?thesis
    using x0 e0
    by (simp add: to_double_def Let_def e_def [symmetric] max_def u_def [symmetric] m_def [symmetric])
qed

lemma is_digit_char: "d < 10 \<Longrightarrow> is_digit (digit_char d)"
proof -
  assume "d < 10"
  then have "d \<in> {0, 1, 2, 3, 4, 5, 6, 7, 8, 9}" by auto
  then show ?thesis by (auto simp: is_digit_def digit_char_def)
qed

lemma show_nat_digits: "list_all is_digit (show_nat n)"
proof (induction n rule: show_nat.induct)
  case (1 n)
  show ?case
  proof (cases "n < 10")
    case True
    then show ?thesis by (subst show_nat.simps) (simp add: is_digit_char)
  next
    case False
    with 1 have "list_all is_digit (show_nat (n div 10))" by simp
    with False show ?thesis by (subst show_nat.simps) (simp add: is_digit_char)
  qed
qed

lemma escape_digits: "list_all is_digit s \<Longrightarrow> escape_html s = s"
  by (induction s) (auto simp: escape_html_def escapeChar_def is_digit_def)

lemma render_nat:
  assumes "k < 10 ^ 21"
  shows "escapeExpression L (Num (Fin (of_nat k))) = show_nat k"
proof -
  have "(of_nat k :: rat) < 10 ^ 21"
    using assms by (metis of_nat_less_iff of_nat_numeral of_nat_power)
  then have "number_to_string L (Fin (of_nat k)) = show_nat k"
    by simp
  then show ?thesis
    by (simp add: escape_digits show_nat_digits)
qed

lemma math_round_near:
  assumes "0 \<le> z"
  shows "\<exists>k. math_round (Fin z) = Fin (of_nat k) \<and> \<bar>of_nat k - z\<bar> \<le> 1 / 2"
proof -
  define i where "i = \<lfloor>z + 1 / 2\<rfloor>"
  have i: "of_int i \<le> z + 1 / 2" "z + 1 / 2 < of_int i + 1"
    unfolding i_def by linarith+
  have "0 \<le> i" using assms unfolding i_def by simp
  then have eq: "(of_nat (nat i) :: rat) = of_int i" by simp
  have "math_round (Fin z) = Fin (of_int i)" by (simp add: i_def)
  then have "math_round (Fin z) = Fin (of_nat (nat i))" by (simp only: eq)
  moreover have "\<bar>of_nat (nat i) - z\<bar> \<le> 1 / 2" using i eq by linarith
  ultimately show ?thesis by blast
qed

section \<open>The free-memory percentage\<close>

text \<open>
  Claim C8.  On a host whose total memory is positive (and, as on every host, below
  \<open>2^53\<close> bytes and not below the free memory) the free-memory percentage
  \<open>Math.round(free/total*100)\<close> is a whole number from 0 to 100, within a half (and
  the rounding error of the two floating-point operations) of the exact percentage, and
  it is rendered as its decimal digits.
\<close>

theorem free_memory_percent:
  assumes "0 < os_totalmem H" and "os_freemem H \<le> os_totalmem H"
    and "os_totalmem H < 2 ^ 53"
  shows "\<exists>k. k \<le> 100 \<and> freemempercent H = Fin (of_nat k) \<and>
     \<bar>(of_nat k :: rat) - 100 * of_nat (os_freemem H) / of_nat (os_totalmem H)\<bar>
       \<le> 1 / 2 + 1 / 2 ^ 45 \<and>
     escapeExpression L (Num (freemempercent H)) = show_nat k \<and>
     list_all is_digit (show_nat k)"
proof -
  define f where "f = os_freemem H"
  define t where "t = os_totalmem H"
  define q where "q = (of_nat f / of_nat t :: rat)"
  have t0: "0 < t" and ft: "f \<le> t" and t53: "t < 2 ^ 53" and f53: "f < 2 ^ 53"
    using assms by (simp_all add: f_def t_def)
  have q01: "0 \<le> q" "q \<le> 1"
    using t0 ft by (simp_all add: q_def)
  have small: "pow2 (- 53) = 1 / 2 ^ 53" "pow2 (- 47) = 1 / 2 ^ 47"
    "pow2 1 = 2" "pow2 7 = 128"
    by (simp_all add: pow2_def)
  have div: "js_div (double_of_nat f) (double_of_nat t) = to_double q"
    using t0 f53 t53 by (simp add: double_of_nat_exact js_div_def is_inf_def q_def)
  have "\<exists>q'. to_double q = Fin q' \<and> 0 \<le> q' \<and> \<bar>q' - q\<bar> \<le> 1 / 2 ^ 53"
  proof (cases "q = 0")
    case True
    then show ?thesis by (simp add: to_double_def)
  next
    case False
    then have "0 < q" "q < pow2 (0 + 1)" using q01 by (simp_all add: small)
    from to_double_abs [OF this] show ?thesis by (simp add: small)
  qed
  then obtain q' where q': "to_double q = Fin q'" "0 \<le> q'" "\<bar>q' - q\<bar> \<le> 1 / 2 ^ 53"
    by blast
  define p where "p = q' * 100"
  have mul: "js_mul (Fin q') (Fin 100) = to_double p"
    by (simp add: js_mul_def is_inf_def p_def)
  have p0: "0 \<le> p" using q'(2) by (simp add: p_def)
  have p128: "p < 128"
  proof -
    have "(1::rat) / 2 ^ 53 < 1 / 100" by simp
    with q'(3) q01 show ?thesis unfolding p_def by linarith
  qed
  have "\<exists>z. to_double p = Fin z \<and> 0 \<le> z \<and> \<bar>z - p\<bar> \<le> 1 / 2 ^ 47"
  proof (cases "p = 0")
    case True
    then show ?thesis by (simp add: to_double_def)
  next
    case False
    then have "0 < p" "p < pow2 (6 + 1)" using p0 p128 by (simp_all add: small)
    from to_double_abs [OF this] show ?thesis by (simp add: small)
  qed
  then obtain z where z: "to_double p = Fin z" "0 \<le> z" "\<bar>z - p\<bar> \<le> 1 / 2 ^ 47"
    by blast
  from math_round_near [OF z(2)] obtain k where
    k: "math_round (Fin z) = Fin (of_nat k)" "\<bar>of_nat k - z\<bar> \<le> 1 / 2"
    by blast
  have pct: "freemempercent H = Fin (of_nat k)"
    by (simp add: freemempercent_def f_def [symmetric] t_def [symmetric] div q'(1) mul z(1) k(1)
        del: math_round.simps)
  have err: "\<bar>z - 100 * q\<bar> \<le> 1 / 2 ^ 45"
  proof -
    have "z - 100 * q = (z - p) + 100 * (q' - q)" by (simp add: p_def)
    then have "\<bar>z - 100 * q\<bar> \<le> \<bar>z - p\<bar> + \<bar>100 * (q' - q)\<bar>"
      by (simp only: abs_triangle_ineq)
    also have "\<bar>100 * (q' - q)\<bar> = 100 * \<bar>q' - q\<bar>"
      by (simp only: abs_mult)
    finally have "\<bar>z - 100 * q\<bar> \<le> \<bar>z - p\<bar> + 100 * \<bar>q' - q\<bar>" .
    also have "\<dots> \<le> 1 / 2 ^ 47 + 100 * (1 / 2 ^ 53)"
      by (intro add_mono mult_left_mono z(3) q'(3)) simp
    also have "\<dots> \<le> 1 / 2 ^ 45" by simp
    finally show ?thesis .
  qed
  have near: "\<bar>of_nat k - 100 * q\<bar> \<le> 1 / 2 + 1 / 2 ^ 45"
    using k(2) err by linarith
  have "(of_nat k :: rat) < 101"
  proof -
    have "(1::rat) / 2 ^ 45 < 1 / 2" by simp
    with near q01(2) show ?thesis by linarith
  qed
  then have k100: "k \<le> 100"
    by (metis of_nat_less_iff of_nat_numeral less_Suc_eq_le eval_nat_numeral(3) Suc_numeral
        semiring_norm(2,8) numeral_plus_one)
  have shown: "escapeExpression L (Num (freemempercent H)) = show_nat k"
    unfolding pct using k100 by (intro render_nat) simp
  have "100 * q = 100 * of_nat (os_freemem H) / of_nat (os_totalmem H)"
    by (simp add: q_def f_def t_def)
  with near have "\<bar>(of_nat k :: rat) - 100 * of_nat (os_freemem H) / of_nat (os_totalmem H)\<bar>
       \<le> 1 / 2 + 1 / 2 ^ 45"
    by (simp only:)
  with k100 pct shown show_nat_digits [of k] show ?thesis by blast
qed

lemma show_nat_25: "show_nat 25 = ''25''"
  by (simp add: show_nat.simps digit_char_def)

theorem free_memory_percent_witness:
  "0 < os_totalmem example_host \<and> os_freemem example_host \<le> os_totalmem example_host \<and>
   os_totalmem example_host < 2 ^ 53 \<and>
   freemempercent example_host = Fin 25 \<and>
   escapeExpression example_lib (Num (freemempercent example_host)) = ''25''"
proof -
  have h: "0 < os_totalmem example_host" "os_freemem example_host \<le> os_totalmem example_host"
    "os_totalmem example_host < 2 ^ 53"
    by (simp_all add: example_host_def)
  from free_memory_percent [OF h, of example_lib] obtain k where
    k: "freemempercent example_host = Fin (of_nat k)"
      "\<bar>(of_nat k :: rat) - 100 * of_nat (os_freemem example_host)
          / of_nat (os_totalmem example_host)\<bar> \<le> 1 / 2 + 1 / 2 ^ 45"
      "escapeExpression example_lib (Num (freemempercent example_host)) = show_nat k"
    by blast
  have "(100::rat) * of_nat (os_freemem example_host) / of_nat (os_totalmem example_host) = 25"
    by (simp add: example_host_def)
  moreover have "(1::rat) / 2 ^ 45 < 1 / 2" by simp
  ultimately have "(of_nat k :: rat) < 26" "(24::rat) < of_nat k"
    using k(2) by linarith+
  then have "k < 26" "24 < k" by simp_all
  then have "k = 25" by simp
  with k(1,3) h show ?thesis by (simp add: show_nat_25)
qed

section \<open>Degenerate host facts\<close>

text \<open>
  Claim C9, as amended.  With zero total memory the formatting does not throw, and the
  free-memory percentage is not a fallback value: it is \<open>NaN\<close> when the free memory is
  zero too and \<open>Infinity\<close> otherwise, and is rendered so.  With no CPUs the model
  summary is the empty string and the speed summary is \<open>" MHz"\<close>.  Whatever the host
  facts, a call with a request without headers returns a page.
\<close>

theorem degenerate_host_facts:
  "(os_totalmem H = 0 \<longrightarrow>
      freemempercent H = (if os_freemem H = 0 then NaN else PInf) \<and>
      escapeExpression L (Num (freemempercent H)) =
        (if os_freemem H = 0 then ''NaN'' else ''Infinity'')) \<and>
   (os_cpus H = [] \<longrightarrow>
      cpus_model (os_cpus H) = [] \<and> cpus_speed (os_cpus H) = '' MHz'') \<and>
   (\<exists>page. nodeinfo L H P (Obj []) options = Inr (page, Obj [], context_process L H P))"
proof (intro conjI impI)
  assume t: "os_totalmem H = 0"
  have z: "double_of_nat 0 = Fin 0" by (simp add: double_of_nat_def to_double_def)
  have pct: "freemempercent H = (if os_freemem H = 0 then NaN else PInf)"
  proof (cases "os_freemem H = 0")
    case True
    then show ?thesis by (simp add: freemempercent_def t z js_div_def js_mul_def is_inf_def)
  next
    case False
    then have "(1::rat) \<le> of_nat (os_freemem H)" by simp
    from to_double_ge1 [OF this]
    have "double_of_nat (os_freemem H) = PInf \<or>
        (\<exists>y. double_of_nat (os_freemem H) = Fin y \<and> 0 < y)"
      by (simp add: double_of_nat_def)
    then have "js_div (double_of_nat (os_freemem H)) (Fin 0) = PInf"
      by (auto simp: js_div_def is_inf_def signed_inf_def)
    with False show ?thesis
      by (simp add: freemempercent_def t z js_mul_def is_inf_def signed_inf_def)
  qed
  then show "freemempercent H = (if os_freemem H = 0 then NaN else PInf)" .
  show "escapeExpression L (Num (freemempercent H)) =
      (if os_freemem H = 0 then ''NaN'' else ''Infinity'')"
    by (simp add: pct escape_html_def escapeChar_def)
next
  assume "os_cpus H = []"
  then show "cpus_model (os_cpus H) = []" by (simp add: cpus_model_def cpu_entries_def)
next
  assume "os_cpus H = []"
  then show "cpus_speed (os_cpus H) = '' MHz''" by (simp add: cpus_speed_def cpu_entries_def)
next
  show "\<exists>page. nodeinfo L H P (Obj []) options = Inr (page, Obj [], context_process L H P)"
    by (simp add: nodeinfo_def get_def)
qed

theorem degenerate_host_facts_witness:
  "os_totalmem (example_host\<lparr>os_cpus := [], os_totalmem := 0\<rparr>) = 0 \<and>
   os_cpus (example_host\<lparr>os_cpus := [], os_totalmem := 0\<rparr>) = [] \<and>
   freemempercent (example_host\<lparr>os_cpus := [], os_totalmem := 0\<rparr>) = PInf \<and>
   escapeExpression example_lib
     (Num (freemempercent (example_host\<lparr>os_cpus := [], os_totalmem := 0\<rparr>))) = ''Infinity'' \<and>
   cpus_model (os_cpus (example_host\<lparr>os_cpus := [], os_totalmem := 0\<rparr>)) = [] \<and>
   cpus_speed (os_cpus (example_host\<lparr>os_cpus := [], os_totalmem := 0\<rparr>)) = '' MHz''"
proof -
  define Hz where "Hz = example_host\<lparr>os_cpus := [], os_totalmem := 0\<rparr>"
  have h: "os_totalmem Hz = 0" "os_cpus Hz = []" "os_freemem Hz \<noteq> 0"
    by (simp_all add: Hz_def example_host_def)
  note T = degenerate_host_facts [of Hz example_lib example_process Undefined]
  have "freemempercent Hz = (if os_freemem Hz = 0 then NaN else PInf)"
    using T h(1) by blast
  then have a: "freemempercent Hz = PInf" using h(3) by simp
  have "escapeExpression example_lib (Num (freemempercent Hz)) =
      (if os_freemem Hz = 0 then ''NaN'' else ''Infinity'')"
    using T h(1) by blast
  then have b: "escapeExpression example_lib (Num (freemempercent Hz)) = ''Infinity''"
    using h(3) by (simp only: if_False)
  have c: "cpus_model (os_cpus Hz) = []" using T h(2) by blast
  have d: "cpus_speed (os_cpus Hz) = '' MHz''" using T h(2) by blast
  note a b c d
  with h(1,2) show ?thesis unfolding Hz_def by blast
qed

text \<open>
  Zero total and zero free memory: the percentage the page shows is \<open>NaN\<close>, not a
  number such as \<open>0\<close>.
\<close>

theorem zero_memory_counterexample:
  "escapeExpression example_lib
     (Num (freemempercent (example_host\<lparr>os_freemem := 0, os_totalmem := 0\<rparr>))) = ''NaN''"
  by (simp add: freemempercent_def example_host_def double_of_nat_def to_double_def js_div_def
      js_mul_def is_inf_def)

section \<open>The example page\<close>














end
